theory Spec2Isabelle
  imports Complex_Main
begin

section \<open>JavaScript values and property reads on object literals\<close>

text \<open>
  The status tables of the repository are object literals read with
  \<^verbatim>\<open>table[key] || 'default'\<close>. A property read on an object literal finds the
  literal's own keys first and then the members every object inherits from
  \<^verbatim>\<open>Object.prototype\<close> (functions, and the prototype object itself for
  \<^verbatim>\<open>__proto__\<close>); all of them are truthy. A value read from a table is therefore
  a string of the table or an inherited member, which is named here by its key.
\<close>

datatype jsval = Str string | Inherited string

definition objectPrototypeKeys :: "string list" where
  "objectPrototypeKeys =
     [''constructor'', ''__defineGetter__'', ''__defineSetter__'', ''hasOwnProperty'',
      ''__lookupGetter__'', ''__lookupSetter__'', ''isPrototypeOf'', ''propertyIsEnumerable'',
      ''toString'', ''valueOf'', ''__proto__'', ''toLocaleString'']"

text \<open>\<^verbatim>\<open>table[key]\<close> for a string key; \<open>None\<close> is \<^verbatim>\<open>undefined\<close>.\<close>

definition js_get :: "(string \<times> string) list \<Rightarrow> string \<Rightarrow> jsval option" where
  "js_get tbl k =
     (case map_of tbl k of
        Some v \<Rightarrow> Some (Str v)
      | None \<Rightarrow> (if k \<in> set objectPrototypeKeys then Some (Inherited k) else None))"

text \<open>
  \<^verbatim>\<open>table[v]\<close> for a value: the key is the value's string form. The string form of
  an inherited member (a function's source text, or \<^verbatim>\<open>[object Object]\<close>) is no key
  of any table of the repository and no member name of \<^verbatim>\<open>Object.prototype\<close>.
\<close>

definition js_get_val :: "(string \<times> string) list \<Rightarrow> jsval \<Rightarrow> jsval option" where
  "js_get_val tbl v = (case v of Str s \<Rightarrow> js_get tbl s | Inherited k \<Rightarrow> None)"

text \<open>\<^verbatim>\<open>x || 'd'\<close>: the default replaces \<^verbatim>\<open>undefined\<close> and the empty string.\<close>

definition js_or :: "jsval option \<Rightarrow> string \<Rightarrow> jsval" where
  "js_or x d =
     (case x of
        None \<Rightarrow> Str d
      | Some (Str s) \<Rightarrow> (if s = [] then Str d else Str s)
      | Some (Inherited k) \<Rightarrow> Inherited k)"

text \<open>Membership of a value in a schema's \<^verbatim>\<open>enum\<close> list of a String path.\<close>

definition inEnum :: "string list \<Rightarrow> jsval \<Rightarrow> bool" where
  "inEnum e v = (case v of Str s \<Rightarrow> s \<in> set e | Inherited k \<Rightarrow> False)"


section \<open>Payment (paymentSchema)\<close>

text \<open>Dates are milliseconds since the epoch.\<close>

record statusEntry =
  entry_status :: jsval
  entry_message :: string
  entry_source :: string
  entry_timestamp :: int

record payment =
  pay_id :: nat
  orderId :: string
  pay_status :: jsval
  paymentStatus :: jsval
  statusHistory :: "statusEntry list"
  externalReference :: "string option"
  completedAt :: "int option"
  failedAt :: "int option"

text \<open>The \<^verbatim>\<open>enum\<close> lists of the schema: \<^verbatim>\<open>status\<close> (and \<^verbatim>\<open>statusHistory.status\<close>),
  \<^verbatim>\<open>paymentStatus\<close> and \<^verbatim>\<open>statusHistory.source\<close>.\<close>

definition paymentStatusEnum :: "string list" where
  "paymentStatusEnum = [''pending'', ''completed'', ''failed'', ''cancelled'']"

definition zenopayStatusEnum :: "string list" where
  "zenopayStatusEnum = [''PENDING'', ''COMPLETED'', ''FAILED'', ''CANCELLED'']"

definition sourceEnum :: "string list" where
  "sourceEnum = [''zenopay_api'', ''webhook'', ''manual'']"

definition zenopayStatusMap :: "(string \<times> string) list" where
  "zenopayStatusMap =
     [(''pending'', ''PENDING''), (''completed'', ''COMPLETED''),
      (''failed'', ''FAILED''), (''cancelled'', ''CANCELLED'')]"

text \<open>\<^verbatim>\<open>paymentSchema.methods.updateStatus(newStatus, message, source)\<close>, at time \<open>now\<close>.\<close>

definition updateStatus :: "payment \<Rightarrow> jsval \<Rightarrow> string \<Rightarrow> string \<Rightarrow> int \<Rightarrow> payment" where
  "updateStatus p newStatus message source now =
     (if pay_status p \<noteq> newStatus then
        let p1 = p\<lparr>pay_status := newStatus\<rparr>;
            p2 = p1\<lparr>statusHistory := statusHistory p1 @
                   [\<lparr>entry_status = newStatus, entry_message = message,
                     entry_source = source, entry_timestamp = now\<rparr>]\<rparr>;
            p3 = p2\<lparr>paymentStatus := js_or (js_get_val zenopayStatusMap newStatus) ''PENDING''\<rparr>
        in if newStatus = Str ''completed'' then p3\<lparr>completedAt := Some now\<rparr>
           else if newStatus = Str ''failed'' then p3\<lparr>failedAt := Some now\<rparr>
           else p3
      else p)"

text \<open>
  Saving a document validates it against the schema first and rejects it when a String
  path holds a value outside its \<^verbatim>\<open>enum\<close>; of the schema's validators, the enums of
  the paths that \<open>updateStatus\<close> writes are modelled.
\<close>

definition validEntry :: "statusEntry \<Rightarrow> bool" where
  "validEntry e = (inEnum paymentStatusEnum (entry_status e) \<and> entry_source e \<in> set sourceEnum)"

definition validPayment :: "payment \<Rightarrow> bool" where
  "validPayment p =
     (inEnum paymentStatusEnum (pay_status p) \<and> inEnum zenopayStatusEnum (paymentStatus p) \<and>
      list_all validEntry (statusHistory p))"



section \<open>Service (ServiceSchema)\<close>

text \<open>
  The errors with which the save of a service is rejected; \<^verbatim>\<open>deliveryError\<close> keeps the
  message of one, which is represented by the error itself.
\<close>

datatype rejection = PaymentIdRequired | ExpiresAtNotADate | AccessTokenTaken

record service =
  svc_id :: nat
  serviceId :: string
  paymentId :: "nat option"
  svc_status :: string
  duration :: "int option"
  accessToken :: "string option"
  accessGrantedAt :: "int option"
  svc_expiresAt :: "int option"
  lastAccessedAt :: "int option"
  accessCount :: nat
  deliveredAt :: "int option"
  deliveryAttempts :: nat
  lastDeliveryAttempt :: "int option"
  deliveryStatus :: string
  deliveryError :: "rejection option"

text \<open>\<^verbatim>\<open>ServiceSchema.methods.activate\<close>: the duration is in days and counts when truthy.\<close>

definition activate :: "int \<Rightarrow> service \<Rightarrow> service" where
  "activate now s =
     (let s1 = s\<lparr>svc_status := ''active'', accessGrantedAt := Some now,
                  deliveredAt := Some now, deliveryStatus := ''completed''\<rparr>
      in case duration s1 of
           None \<Rightarrow> s1
         | Some d \<Rightarrow> (if d = 0 then s1
                      else s1\<lparr>svc_expiresAt := Some (now + d * 24 * 60 * 60 * 1000)\<rparr>))"

text \<open>\<^verbatim>\<open>ServiceSchema.methods.isAccessible\<close>.\<close>

definition isAccessible :: "int \<Rightarrow> service \<Rightarrow> bool" where
  "isAccessible now s =
     (if svc_status s \<noteq> ''active'' then False
      else if (case svc_expiresAt s of None \<Rightarrow> False | Some e \<Rightarrow> now > e) then False
      else True)"

text \<open>\<^verbatim>\<open>ServiceSchema.methods.recordAccess\<close>.\<close>

definition recordAccess :: "int \<Rightarrow> service \<Rightarrow> service" where
  "recordAccess now s = s\<lparr>lastAccessedAt := Some now, accessCount := accessCount s + 1\<rparr>"


section \<open>The persistent store\<close>

text \<open>
  A collection is the list of its documents. \<^verbatim>\<open>findOne\<close> returns the first document
  that matches the filter. \<^verbatim>\<open>save\<close> on a document that was loaded from the store
  validates it against the schema and then writes it back under its \<^verbatim>\<open>_id\<close>; it is
  rejected, and nothing is written, when the validation or the write fails.

  A payment is rejected when a String path holds a value outside its \<^verbatim>\<open>enum\<close>; of the
  schema's validators, the enums of the paths that \<open>updateStatus\<close> writes are modelled.
\<close>

record db =
  payments :: "payment list"
  services :: "service list"

definition savePayment :: "db \<Rightarrow> payment \<Rightarrow> db option" where
  "savePayment d p =
     (if validPayment p
      then Some (d\<lparr>payments := map (\<lambda>q. if pay_id q = pay_id p then p else q) (payments d)\<rparr>)
      else None)"

text \<open>
  A service is saved with the document as it was loaded (or last saved) at hand: the
  required paths are validated, and so is every path that holds another value than it did
  then. Of the schema's validators and indexes, those that the code modelled here can
  violate are modelled: \<^verbatim>\<open>paymentId\<close> is required; \<^verbatim>\<open>expiresAt\<close> is a \<^verbatim>\<open>Date\<close>, and a
  time more than 8640000000000000 milliseconds from the epoch is an invalid date, which
  does not cast; \<^verbatim>\<open>accessToken\<close> has a unique sparse index, so a token that another
  document holds cannot be written. The first violation in this order is the one reported.
  The other required paths (\<^verbatim>\<open>serviceId\<close>, \<^verbatim>\<open>customerId\<close>, \<^verbatim>\<open>type\<close>, \<^verbatim>\<open>name\<close>) are
  written by none of this code and are taken to be present, and the time of the clock is
  taken to be a valid date.
\<close>

definition dateInRange :: "int \<Rightarrow> bool" where
  "dateInRange t = (- 8640000000000000 \<le> t \<and> t \<le> 8640000000000000)"

definition tokenTaken :: "db \<Rightarrow> service \<Rightarrow> bool" where
  "tokenTaken d s =
     (case accessToken s of
        None \<Rightarrow> False
      | Some k \<Rightarrow> list_ex (\<lambda>u. svc_id u \<noteq> svc_id s \<and> accessToken u = Some k) (services d))"

definition rejects :: "db \<Rightarrow> service \<Rightarrow> service \<Rightarrow> rejection option" where
  "rejects d loaded s =
     (if paymentId s = None then Some PaymentIdRequired
      else if svc_expiresAt s \<noteq> svc_expiresAt loaded \<and>
              (case svc_expiresAt s of None \<Rightarrow> False | Some e \<Rightarrow> \<not> dateInRange e)
      then Some ExpiresAtNotADate
      else if accessToken s \<noteq> accessToken loaded \<and> tokenTaken d s then Some AccessTokenTaken
      else None)"

definition saveService :: "db \<Rightarrow> service \<Rightarrow> service \<Rightarrow> rejection + db" where
  "saveService d loaded s =
     (case rejects d loaded s of
        Some e \<Rightarrow> Inl e
      | None \<Rightarrow> Inr (d\<lparr>services := map (\<lambda>t. if svc_id t = svc_id s then s else t) (services d)\<rparr>))"


section \<open>WebhookController\<close>

record webhookData =
  order_id :: string
  payment_status :: string
  wh_reference :: "string option"
  transaction_id :: "string option"

text \<open>The response: 200 with the payment's id and status, or an error code with its message.\<close>

datatype webhookResponse = Processed nat jsval | Failure nat string

definition statusMap :: "(string \<times> string) list" where
  "statusMap =
     [(''COMPLETED'', ''completed''), (''PENDING'', ''pending''), (''PROCESSING'', ''processing''),
      (''FAILED'', ''failed''), (''CANCELLED'', ''cancelled'')]"

text \<open>\<^verbatim>\<open>const newStatus = statusMap[payment_status] || 'pending'\<close>.\<close>

definition webhookStatus :: "string \<Rightarrow> jsval" where
  "webhookStatus raw = js_or (js_get statusMap raw) ''pending''"

text \<open>
  \<^verbatim>\<open>deliverSingleService\<close>: the access token, when the service has none, is drawn from
  the clock and the random generator; \<open>tokenFor\<close> stands for that draw. When the save is
  rejected, the \<^verbatim>\<open>catch\<close> branch marks the delivery as failed, keeps the error and saves
  the document again, with everything the \<^verbatim>\<open>try\<close> block assigned still on it; \<open>Inl\<close> is
  the error of that second save, which leaves the function as an exception. The
  notification of the customer writes nothing and catches its own errors.
\<close>

definition deliverSingleService ::
  "(service \<Rightarrow> string) \<Rightarrow> int \<Rightarrow> db \<Rightarrow> service \<Rightarrow> rejection + db" where
  "deliverSingleService tokenFor now d s =
     (let s1 = s\<lparr>deliveryAttempts := deliveryAttempts s + 1, lastDeliveryAttempt := Some now\<rparr>;
          s2 = activate now s1;
          s3 = s2\<lparr>deliveryStatus := ''completed''\<rparr>;
          s4 = (case accessToken s3 of
                  None \<Rightarrow> s3\<lparr>accessToken := Some (tokenFor s3)\<rparr>
                | Some t \<Rightarrow> (if t = [] then s3\<lparr>accessToken := Some (tokenFor s3)\<rparr> else s3))
      in case saveService d s s4 of
           Inr d1 \<Rightarrow> Inr d1
         | Inl e \<Rightarrow> saveService d s (s4\<lparr>deliveryStatus := ''failed'', deliveryError := Some e\<rparr>))"

text \<open>The query of \<^verbatim>\<open>deliverServices\<close>: \<^verbatim>\<open>{ paymentId: payment._id, status: 'pending' }\<close>.\<close>

definition pendingFor :: "payment \<Rightarrow> service \<Rightarrow> bool" where
  "pendingFor p s = (paymentId s = Some (pay_id p) \<and> svc_status s = ''pending'')"

text \<open>
  \<^verbatim>\<open>deliverServices\<close>: the loop over the services found runs inside a \<^verbatim>\<open>try\<close> block
  whose \<^verbatim>\<open>catch\<close> branch only logs. An exception of \<open>deliverSingleService\<close> ends the
  loop, the services after it are not delivered, and the function returns normally.
\<close>

fun deliverServices_loop :: "(service \<Rightarrow> string) \<Rightarrow> int \<Rightarrow> db \<Rightarrow> service list \<Rightarrow> db" where
  "deliverServices_loop tokenFor now d [] = d"
| "deliverServices_loop tokenFor now d (s # ss) =
     (case deliverSingleService tokenFor now d s of
        Inl e \<Rightarrow> d
      | Inr d1 \<Rightarrow> deliverServices_loop tokenFor now d1 ss)"

definition deliverServices :: "(service \<Rightarrow> string) \<Rightarrow> int \<Rightarrow> db \<Rightarrow> payment \<Rightarrow> db" where
  "deliverServices tokenFor now d p =
     (let found = filter (pendingFor p) (services d)
      in if found = [] then d else deliverServices_loop tokenFor now d found)"

text \<open>
  \<^verbatim>\<open>WebhookController.handleZenopayWebhook\<close>. The method reads \<^verbatim>\<open>this.deliverServices\<close>,
  and the class binds none of its methods: \<^verbatim>\<open>this\<close> is the controller when the method is
  called on it, and \<^verbatim>\<open>undefined\<close> when the function is called on its own. Then the read
  throws, after the payment was saved, and like a rejected save the exception is caught
  and answered 500. The handler also assigns \<^verbatim>\<open>externalTransactionId\<close>, which is no path
  of the schema and is not stored.
\<close>

datatype receiver = Controller | Unbound

definition handleZenopayWebhook ::
  "receiver \<Rightarrow> (service \<Rightarrow> string) \<Rightarrow> int \<Rightarrow> db \<Rightarrow> webhookData \<Rightarrow> webhookResponse \<times> db" where
  "handleZenopayWebhook this tokenFor now d w =
     (if order_id w = [] then (Failure 400 ''Order ID is required'', d)
      else case find (\<lambda>p. orderId p = order_id w) (payments d) of
        None \<Rightarrow> (Failure 404 ''Payment not found'', d)
      | Some p \<Rightarrow>
          (let newStatus = webhookStatus (payment_status w) in
           if pay_status p \<noteq> newStatus then
             (let p1 = (updateStatus p newStatus (''Webhook: '' @ payment_status w) ''webhook'' now)
                         \<lparr>externalReference := wh_reference w\<rparr>
              in case savePayment d p1 of
                   None \<Rightarrow> (Failure 500 ''Webhook processing failed'', d)
                 | Some d1 \<Rightarrow>
                     if newStatus = Str ''completed'' then
                       (case this of
                          Controller \<Rightarrow>
                            (Processed (pay_id p1) (pay_status p1), deliverServices tokenFor now d1 p1)
                        | Unbound \<Rightarrow> (Failure 500 ''Webhook processing failed'', d1))
                     else (Processed (pay_id p1) (pay_status p1), d1))
           else (Processed (pay_id p) (pay_status p), d)))"

text \<open>
  The route \<^verbatim>\<open>router.post('/zenopay', webhookController.handleZenopayWebhook)\<close> hands
  the function to the router without its controller, and the router calls it on its own.
\<close>

definition zenopayRoute ::
  "(service \<Rightarrow> string) \<Rightarrow> int \<Rightarrow> db \<Rightarrow> webhookData \<Rightarrow> webhookResponse \<times> db" where
  "zenopayRoute = handleZenopayWebhook Unbound"

text \<open>The status stored for an order, as a later reader of the store sees it.\<close>

definition storedStatus :: "db \<Rightarrow> string \<Rightarrow> jsval option" where
  "storedStatus d oid = map_option pay_status (find (\<lambda>p. orderId p = oid) (payments d))"


section \<open>ServiceController\<close>

text \<open>
  \<^verbatim>\<open>ServiceController.checkServiceAccess\<close>. The service is loaded with its payment
  populated: a reference to no stored payment populates as \<^verbatim>\<open>null\<close>. A rejected save is
  caught and answered 500 with the error's message.
\<close>

datatype accessResponse = AccessGranted service | AccessDenied nat string | AccessFailed rejection

definition checkServiceAccess :: "int \<Rightarrow> db \<Rightarrow> string \<Rightarrow> accessResponse \<times> db" where
  "checkServiceAccess now d sid =
     (case find (\<lambda>s. serviceId s = sid) (services d) of
        None \<Rightarrow> (AccessDenied 404 ''Service not found'', d)
      | Some s \<Rightarrow>
          (case (case paymentId s of
                   None \<Rightarrow> None
                 | Some pid \<Rightarrow> find (\<lambda>p. pay_id p = pid) (payments d)) of
             None \<Rightarrow> (AccessDenied 402 ''Payment required'', d)
           | Some p \<Rightarrow>
               if pay_status p \<noteq> Str ''completed'' then (AccessDenied 402 ''Payment required'', d)
               else
                 (let s1 = (if svc_status s \<noteq> ''active'' then activate now s else s)
                  in case (if svc_status s \<noteq> ''active'' then saveService d s s1 else Inr d) of
                       Inl e \<Rightarrow> (AccessFailed e, d)
                     | Inr d1 \<Rightarrow>
                         (let s2 = recordAccess now s1
                          in case saveService d1 s1 s2 of
                               Inl e \<Rightarrow> (AccessFailed e, d1)
                             | Inr d2 \<Rightarrow> (AccessGranted s2, d2)))))"


section \<open>ControlNumber (controlNumberSchema)\<close>

record usedByInfo =
  info_name :: "string option"
  info_phone :: "string option"
  info_network :: "string option"

text \<open>
  \<^verbatim>\<open>paymentReference\<close> holds the value that was assigned to the path; the schema
  declares the path an \<^verbatim>\<open>ObjectId\<close>, and whether the value casts to one is decided when
  the document is saved.
\<close>

record controlNumber =
  cn_id :: nat
  cn_code :: string
  amount :: real
  currency :: string
  cn_status :: string
  paymentReference :: "string option"
  usedAt :: "int option"
  usedBy :: usedByInfo
  cn_expiresAt :: int
  validUntil :: int
  isReusable :: bool
  maxUses :: int
  currentUses :: int

text \<open>A string property counts in a condition when it is present and not empty.\<close>

definition truthy :: "string option \<Rightarrow> bool" where
  "truthy x = (case x of None \<Rightarrow> False | Some s \<Rightarrow> s \<noteq> [])"

text \<open>The virtuals \<^verbatim>\<open>isExpired\<close> and \<^verbatim>\<open>isValid\<close>, and \<^verbatim>\<open>canBeUsed\<close>, at time \<open>now\<close>.\<close>

definition isExpired :: "int \<Rightarrow> controlNumber \<Rightarrow> bool" where
  "isExpired now c = (now > cn_expiresAt c)"

definition isValid :: "int \<Rightarrow> controlNumber \<Rightarrow> bool" where
  "isValid now c = (cn_status c = ''active'' \<and> now \<le> validUntil c \<and> currentUses c < maxUses c)"

definition canBeUsed :: "int \<Rightarrow> controlNumber \<Rightarrow> bool" where
  "canBeUsed now c = (isValid now c \<and> \<not> isExpired now c)"

text \<open>\<^verbatim>\<open>controlNumberSchema.methods.markAsUsed(paymentReference, usedByInfo)\<close>; \<open>Inl\<close> is the
  thrown error's message.\<close>

definition markAsUsed :: "int \<Rightarrow> string \<Rightarrow> usedByInfo \<Rightarrow> controlNumber \<Rightarrow> string + controlNumber" where
  "markAsUsed now ref info c =
     (if cn_status c \<noteq> ''active'' then Inl ''Control number is not active''
      else
        let c1 = c\<lparr>cn_status := ''used'', usedAt := Some now, paymentReference := Some ref,
                    currentUses := currentUses c + 1\<rparr>;
            c2 = (if truthy (info_name info)
                  then c1\<lparr>usedBy := (usedBy c1)\<lparr>info_name := info_name info\<rparr>\<rparr> else c1);
            c3 = (if truthy (info_phone info)
                  then c2\<lparr>usedBy := (usedBy c2)\<lparr>info_phone := info_phone info\<rparr>\<rparr> else c2);
            c4 = (if truthy (info_network info)
                  then c3\<lparr>usedBy := (usedBy c3)\<lparr>info_network := info_network info\<rparr>\<rparr> else c3)
        in Inr (if \<not> isReusable c4 \<or> currentUses c4 \<ge> maxUses c4
                then c4\<lparr>cn_status := ''used''\<rparr> else c4))"

text \<open>
  The functions of the model object \<^verbatim>\<open>ControlNumber\<close>, by name: the statics of the
  schema, of which there is one, \<^verbatim>\<open>generateBatch\<close>, and those that every model of the
  library has, of which the repository calls these. \<^verbatim>\<open>generateControlNumber\<close> is a
  method of the documents (\<^verbatim>\<open>controlNumberSchema.methods\<close>), not a function of the model.
  A call of a name that is not among them throws a \<^verbatim>\<open>TypeError\<close>.
\<close>

definition controlNumberModel :: "string list" where
  "controlNumberModel =
     [''generateBatch'', ''findOne'', ''find'', ''findOneAndUpdate'', ''countDocuments'',
      ''aggregate'', ''insertMany'']"

text \<open>
  The message of an error: a text of the code, or the validation error of a value that
  did not cast to an \<^verbatim>\<open>ObjectId\<close> at the path \<^verbatim>\<open>paymentReference\<close>, which quotes the
  value.
\<close>

datatype errorMessage = Message string | CastToObjectIdFailed string

text \<open>
  A string casts to an \<^verbatim>\<open>ObjectId\<close> when it is 24 hexadecimal digits; older versions
  of the driver also take any string of 12 bytes.
\<close>

definition isHex :: "char \<Rightarrow> bool" where
  "isHex c = (c \<in> set ''0123456789abcdefABCDEF'')"

definition castsToObjectId :: "string \<Rightarrow> bool" where
  "castsToObjectId s = ((length s = 24 \<and> list_all isHex s) \<or> length s = 12)"


section \<open>ControlNumberService\<close>

type_synonym registry = "controlNumber list"

text \<open>\<^verbatim>\<open>String.prototype.toUpperCase\<close> on the ASCII letters, of which control numbers
  (prefix, digits, base-36 suffix) are made.\<close>

definition upperChar :: "char \<Rightarrow> char" where
  "upperChar c =
     (case map_of (zip ''abcdefghijklmnopqrstuvwxyz'' ''ABCDEFGHIJKLMNOPQRSTUVWXYZ'') c of
        None \<Rightarrow> c
      | Some u \<Rightarrow> u)"

definition toUpperCase :: "string \<Rightarrow> string" where
  "toUpperCase s = map upperChar s"

text \<open>The decimal form of a number, as a template string prints it.\<close>

definition digitChar :: "nat \<Rightarrow> char" where
  "digitChar n = ''0123456789'' ! n"

function showNat :: "nat \<Rightarrow> string" where
  "showNat n = (if n < 10 then [digitChar n] else showNat (n div 10) @ [digitChar (n mod 10)])"
  by pat_completeness auto
termination
  by (relation "measure id") auto

declare showNat.simps [simp del]

definition showInt :: "int \<Rightarrow> string" where
  "showInt i = (if i < 0 then CHR ''-'' # showNat (nat (- i)) else showNat (nat i))"

text \<open>The query \<^verbatim>\<open>findOne({ controlNumber: k, status: 'active' })\<close>.\<close>

definition findActive :: "registry \<Rightarrow> string \<Rightarrow> controlNumber option" where
  "findActive reg k = find (\<lambda>c. cn_code c = k \<and> cn_status c = ''active'') reg"

text \<open>
  \<^verbatim>\<open>save\<close> on a control number after \<open>markAsUsed\<close>: the paths the method assigns are
  validated. The status used is in the enum of its path, the time and the count are a
  date and a number; the payment reference has to cast to an \<^verbatim>\<open>ObjectId\<close>. When it does
  not, the save is rejected with a validation error and the stored record stays as it was.
\<close>

definition saveControlNumber :: "registry \<Rightarrow> controlNumber \<Rightarrow> errorMessage + registry" where
  "saveControlNumber reg c =
     (case paymentReference c of
        None \<Rightarrow> Inr (map (\<lambda>x. if cn_id x = cn_id c then c else x) reg)
      | Some r \<Rightarrow>
          if castsToObjectId r then Inr (map (\<lambda>x. if cn_id x = cn_id c then c else x) reg)
          else Inl (CastToObjectIdFailed r))"

text \<open>
  \<^verbatim>\<open>ControlNumberService.validateControlNumber\<close>. A thrown error is caught and returned
  as an invalid result with its message; a valid result copies the fields of the record
  found. The registry is returned as the call leaves it.
\<close>

datatype validation = Invalid string | Valid controlNumber

definition validateControlNumber :: "registry \<Rightarrow> int \<Rightarrow> string \<Rightarrow> validation \<times> registry" where
  "validateControlNumber reg now controlNumber =
     (if controlNumber = [] then (Invalid ''Control number is required'', reg)
      else case findActive reg (toUpperCase controlNumber) of
        None \<Rightarrow> (Invalid ''Control number not found or expired'', reg)
      | Some c \<Rightarrow>
          if isExpired now c then (Invalid ''Control number has expired'', reg)
          else if \<not> canBeUsed now c then (Invalid ''Control number cannot be used'', reg)
          else (Valid c, reg))"

text \<open>
  \<^verbatim>\<open>ControlNumberService.useControlNumber\<close> awaits two store operations: the
  \<^verbatim>\<open>findOne\<close> and, after the checks and \<open>markAsUsed\<close> on the document it got, the
  \<^verbatim>\<open>save\<close>. The two parts are \<open>useControlNumber_find\<close> and \<open>useControlNumber_rest\<close>;
  other requests may be served between them. Every error is caught and thrown again as
  \<^verbatim>\<open>Failed to use control number: \<close> followed by its message; \<open>Inl\<close> is that message.
\<close>

record paymentData =
  phoneNumber :: "string option"
  customerName :: "string option"
  pd_network :: "string option"

record usage =
  use_controlNumber :: string
  use_paymentReference :: string
  use_amount :: real
  use_currency :: string
  use_status :: string

definition useControlNumber_find :: "registry \<Rightarrow> string \<Rightarrow> controlNumber option" where
  "useControlNumber_find reg controlNumber = findActive reg (toUpperCase controlNumber)"

definition useControlNumber_rest ::
  "registry \<Rightarrow> int \<Rightarrow> string \<Rightarrow> paymentData \<Rightarrow> controlNumber option \<Rightarrow>
   (errorMessage + usage) \<times> registry" where
  "useControlNumber_rest reg now controlNumber pd found =
     (case found of
        None \<Rightarrow> (Inl (Message ''Control number not found or not active''), reg)
      | Some c \<Rightarrow>
          if \<not> canBeUsed now c then (Inl (Message ''Control number cannot be used''), reg)
          else
            (let ref = ''CN_'' @ controlNumber @ ''_'' @ showInt now
             in case markAsUsed now ref
                       \<lparr>info_name = customerName pd, info_phone = phoneNumber pd,
                        info_network = pd_network pd\<rparr> c of
                  Inl e \<Rightarrow> (Inl (Message e), reg)
                | Inr c' \<Rightarrow>
                    (case saveControlNumber reg c' of
                       Inl e \<Rightarrow> (Inl e, reg)
                     | Inr reg' \<Rightarrow>
                         (Inr \<lparr>use_controlNumber = cn_code c', use_paymentReference = ref,
                               use_amount = amount c', use_currency = currency c',
                               use_status = ''used''\<rparr>,
                          reg'))))"

definition useControlNumber ::
  "registry \<Rightarrow> int \<Rightarrow> string \<Rightarrow> paymentData \<Rightarrow> (errorMessage + usage) \<times> registry" where
  "useControlNumber reg now controlNumber pd =
     useControlNumber_rest reg now controlNumber pd (useControlNumber_find reg controlNumber)"

text \<open>
  Requests in flight: each request \<open>i\<close> redeems the same code with its own payment data,
  and reads the time \<open>clock i\<close> when it builds its payment reference. \<open>Find i\<close> is the
  completion of its query, \<open>Finish i\<close> the rest of the request, which works on the
  document the query returned. A schedule is a list of these events.
\<close>

datatype event = Find nat | Finish nat

record flight =
  fl_registry :: registry
  fl_found :: "(nat \<times> controlNumber option) list"
  fl_results :: "(nat \<times> (errorMessage + usage)) list"

definition step ::
  "(nat \<Rightarrow> int) \<Rightarrow> string \<Rightarrow> (nat \<Rightarrow> paymentData) \<Rightarrow> flight \<Rightarrow> event \<Rightarrow> flight" where
  "step clock controlNumber pd st e =
     (case e of
        Find i \<Rightarrow>
          st\<lparr>fl_found := (i, useControlNumber_find (fl_registry st) controlNumber) # fl_found st\<rparr>
      | Finish i \<Rightarrow>
          (case map_of (fl_found st) i of
             None \<Rightarrow> st
           | Some found \<Rightarrow>
               (let r = useControlNumber_rest (fl_registry st) (clock i) controlNumber (pd i) found
                in st\<lparr>fl_registry := snd r, fl_results := fl_results st @ [(i, fst r)]\<rparr>)))"

definition run ::
  "(nat \<Rightarrow> int) \<Rightarrow> string \<Rightarrow> (nat \<Rightarrow> paymentData) \<Rightarrow> registry \<Rightarrow> event list \<Rightarrow> flight" where
  "run clock controlNumber pd reg es =
     foldl (step clock controlNumber pd) \<lparr>fl_registry = reg, fl_found = [], fl_results = []\<rparr> es"

definition successes :: "flight \<Rightarrow> nat" where
  "successes st = length (filter (\<lambda>r. \<not> isl (snd r)) (fl_results st))"


section \<open>ControlNumberController\<close>

text \<open>
  The handlers of the controller call functions of the model object by name. Each handler
  takes the names the model has as \<open>model\<close>; for the repository as it is, \<open>model\<close> is
  \<open>controlNumberModel\<close>. A call of a missing name throws inside the handler's \<^verbatim>\<open>try\<close>
  block, and the \<^verbatim>\<open>catch\<close> branch answers 500 with the error's message. What a function
  named would do is a parameter of the handler. The constructor of the controller binds
  its methods, so that the handlers run on the controller also when the router calls them.
\<close>

datatype httpError = HttpError nat errorMessage

definition maxAttempts :: nat where
  "maxAttempts = 10"

text \<open>
  The retry loop of \<^verbatim>\<open>ControlNumberController.generateControlNumber\<close>. The candidate
  is to come from \<^verbatim>\<open>ControlNumber.generateControlNumber()\<close>: \<open>candidate k\<close> stands for
  the draw of the attempt after \<open>k\<close> earlier ones. \<open>taken\<close> stands for
  \<^verbatim>\<open>ControlNumber.findOneWithTimeout({ controlNumber })\<close> finding a record. The result
  carries the number of draws made.
\<close>

function generateLoop ::
  "string list \<Rightarrow> (nat \<Rightarrow> string) \<Rightarrow> (string \<Rightarrow> bool) \<Rightarrow> nat \<Rightarrow> (httpError + string) \<times> nat" where
  "generateLoop model candidate taken attempts =
     (if ''generateControlNumber'' \<notin> set model
      then (Inl (HttpError 500 (Message ''ControlNumber.generateControlNumber is not a function'')),
            attempts)
      else if Suc attempts \<ge> maxAttempts
      then (Inl (HttpError 500 (Message ''Unable to generate unique control number'')), Suc attempts)
      else if ''findOneWithTimeout'' \<notin> set model
      then (Inl (HttpError 500 (Message ''ControlNumber.findOneWithTimeout is not a function'')),
            Suc attempts)
      else if taken (candidate attempts) then generateLoop model candidate taken (Suc attempts)
      else (Inr (candidate attempts), Suc attempts))"
  by pat_completeness auto
termination
  by (relation "measure (\<lambda>(m, c, t, a). maxAttempts - a)") auto

declare generateLoop.simps [simp del]

text \<open>
  \<^verbatim>\<open>ControlNumberController.generateControlNumber\<close> up to the end of its loop: the answer
  is an error response, or the code with which the handler goes on to create and save
  the record. \<open>requested\<close> is the amount of the request, \<open>None\<close> when it has none.
\<close>

definition controller_generateControlNumber ::
  "string list \<Rightarrow> (nat \<Rightarrow> string) \<Rightarrow> (string \<Rightarrow> bool) \<Rightarrow> real option \<Rightarrow> (httpError + string) \<times> nat" where
  "controller_generateControlNumber model candidate taken requested =
     (if (case requested of None \<Rightarrow> True | Some a \<Rightarrow> a \<le> 0)
      then (Inl (HttpError 400 (Message ''Valid amount is required'')), 0)
      else generateLoop model candidate taken 0)"

text \<open>
  \<^verbatim>\<open>ControlNumberController.validateControlNumber\<close>. \<open>lookup\<close> stands for
  \<^verbatim>\<open>ControlNumber.validateControlNumber\<close>, which is to return a record or nothing;
  \<open>expected\<close> is the number \<^verbatim>\<open>parseFloat\<close> reads from the query's amount, \<open>None\<close> when
  the query has none.
\<close>

datatype validateResponse =
  NotFoundOrExpired | AmountMismatch real | ValidResponse controlNumber | ValidateFailed httpError

definition controller_validateControlNumber ::
  "string list \<Rightarrow> (string \<Rightarrow> controlNumber option) \<Rightarrow> string \<Rightarrow> real option \<Rightarrow> validateResponse" where
  "controller_validateControlNumber model lookup controlNumber expected =
     (if ''validateControlNumber'' \<notin> set model
      then ValidateFailed
             (HttpError 500 (Message ''ControlNumber.validateControlNumber is not a function''))
      else case lookup controlNumber of
        None \<Rightarrow> NotFoundOrExpired
      | Some c \<Rightarrow>
          if (case expected of None \<Rightarrow> False | Some a \<Rightarrow> a \<noteq> amount c)
          then AmountMismatch (amount c)
          else ValidResponse c)"

text \<open>
  \<^verbatim>\<open>ControlNumberController.useControlNumber\<close>, for a request whose body carries a
  payment reference and the customer's info. \<open>findOneWithTimeout\<close> stands for the function
  of that name applied to the filter \<^verbatim>\<open>{ controlNumber, status: 'active' }\<close>. The code is
  looked up as it was typed.
\<close>

definition controller_useControlNumber ::
  "string list \<Rightarrow> (registry \<Rightarrow> string \<Rightarrow> controlNumber option) \<Rightarrow> registry \<Rightarrow> int \<Rightarrow> string \<Rightarrow>
   string \<Rightarrow> usedByInfo \<Rightarrow> (httpError + controlNumber) \<times> registry" where
  "controller_useControlNumber model findOneWithTimeout reg now controlNumber ref customerInfo =
     (if ''findOneWithTimeout'' \<notin> set model
      then (Inl (HttpError 500 (Message ''ControlNumber.findOneWithTimeout is not a function'')), reg)
      else case findOneWithTimeout reg controlNumber of
        None \<Rightarrow> (Inl (HttpError 404 (Message ''Control number not found or already used'')), reg)
      | Some c \<Rightarrow>
          if \<not> canBeUsed now c
          then (Inl (HttpError 400 (Message ''Control number is expired or invalid'')), reg)
          else
            (case markAsUsed now ref customerInfo c of
               Inl e \<Rightarrow> (Inl (HttpError 500 (Message e)), reg)
             | Inr c' \<Rightarrow>
                 (case saveControlNumber reg c' of
                    Inl e \<Rightarrow> (Inl (HttpError 500 e), reg)
                  | Inr reg' \<Rightarrow> (Inr c', reg'))))"


section \<open>The classification of the specification\<close>

text \<open>
  The outcome of \<^verbatim>\<open>validate(code, expectedAmount?)\<close> as the specification words it, for
  comparison with \<open>validateControlNumber\<close>: not found, inactive, expired (past
  \<^verbatim>\<open>expiresAt\<close> or past \<^verbatim>\<open>validUntil\<close>), exhausted, amount mismatch.
\<close>

datatype specOutcome = SpecValid | SpecInvalid string

definition validate_spec :: "registry \<Rightarrow> int \<Rightarrow> string \<Rightarrow> real option \<Rightarrow> specOutcome" where
  "validate_spec reg now code expected =
     (case find (\<lambda>c. cn_code c = code) reg of
        None \<Rightarrow> SpecInvalid ''not_found''
      | Some c \<Rightarrow>
          if cn_status c \<noteq> ''active'' then SpecInvalid ''inactive''
          else if now > cn_expiresAt c \<or> now > validUntil c then SpecInvalid ''expired''
          else if currentUses c \<ge> maxUses c then SpecInvalid ''exhausted''
          else if (case expected of None \<Rightarrow> False | Some a \<Rightarrow> a \<noteq> amount c)
          then SpecInvalid ''amount_mismatch''
          else SpecValid)"


text \<open>The service stored under a service id, as a later reader of the store sees it.\<close>

definition storedService :: "db \<Rightarrow> string \<Rightarrow> service option" where
  "storedService d sid = find (\<lambda>s. serviceId s = sid) (services d)"


section \<open>Canonical statuses and the bank's status table\<close>

definition canonicalStatuses :: "string list" where
  "canonicalStatuses = [''pending'', ''processing'', ''completed'', ''failed'', ''cancelled'']"

definition terminal :: "jsval \<Rightarrow> bool" where
  "terminal s = (s = Str ''completed'' \<or> s = Str ''failed'' \<or> s = Str ''cancelled'')"

text \<open>\<^verbatim>\<open>BankPaymentService.mapStatus\<close>.\<close>

definition bankStatusMap :: "(string \<times> string) list" where
  "bankStatusMap =
     [(''INITIATED'', ''pending''), (''PENDING'', ''pending''), (''PROCESSING'', ''processing''),
      (''IN_PROGRESS'', ''processing''), (''COMPLETED'', ''completed''), (''SUCCESSFUL'', ''completed''),
      (''SETTLED'', ''completed''), (''FAILED'', ''failed''), (''REJECTED'', ''failed''),
      (''CANCELLED'', ''cancelled''), (''RETURNED'', ''failed'')]"

definition mapStatus :: "string \<Rightarrow> jsval" where
  "mapStatus externalStatus = js_or (js_get bankStatusMap externalStatus) ''pending''"


section \<open>Example documents\<close>

text \<open>A payment that failed, a payment still pending, and a notification for their order.\<close>

definition failedPayment :: payment where
  "failedPayment =
     \<lparr>pay_id = 1, orderId = ''ORDER-1'', pay_status = Str ''failed'', paymentStatus = Str ''FAILED'',
      statusHistory = [\<lparr>entry_status = Str ''failed'', entry_message = ''Webhook: FAILED'',
                        entry_source = ''webhook'', entry_timestamp = 5\<rparr>],
      externalReference = None, completedAt = None, failedAt = Some 5\<rparr>"

definition pendingPayment :: payment where
  "pendingPayment =
     \<lparr>pay_id = 1, orderId = ''ORDER-1'', pay_status = Str ''pending'', paymentStatus = Str ''PENDING'',
      statusHistory = [], externalReference = None, completedAt = None, failedAt = None\<rparr>"

definition notify :: "string \<Rightarrow> webhookData" where
  "notify raw =
     \<lparr>order_id = ''ORDER-1'', payment_status = raw, wh_reference = None, transaction_id = None\<rparr>"

text \<open>
  A shop's store: the pending payment with a pending service, a cancelled service of the
  same payment, and a pending service of another payment.
\<close>

definition svcPending :: service where
  "svcPending =
     \<lparr>svc_id = 1, serviceId = ''SVC-1'', paymentId = Some 1, svc_status = ''pending'',
      duration = Some 30, accessToken = None, accessGrantedAt = None, svc_expiresAt = None,
      lastAccessedAt = None, accessCount = 0, deliveredAt = None, deliveryAttempts = 0,
      lastDeliveryAttempt = None, deliveryStatus = ''not_started'', deliveryError = None\<rparr>"

definition svcCancelled :: service where
  "svcCancelled =
     \<lparr>svc_id = 2, serviceId = ''SVC-2'', paymentId = Some 1, svc_status = ''cancelled'',
      duration = None, accessToken = Some ''ACCESS_OLD'', accessGrantedAt = Some 1, svc_expiresAt = None,
      lastAccessedAt = None, accessCount = 0, deliveredAt = Some 1, deliveryAttempts = 1,
      lastDeliveryAttempt = Some 1, deliveryStatus = ''completed'', deliveryError = None\<rparr>"

definition svcOther :: service where
  "svcOther =
     \<lparr>svc_id = 3, serviceId = ''SVC-3'', paymentId = Some 2, svc_status = ''pending'',
      duration = None, accessToken = None, accessGrantedAt = None, svc_expiresAt = None,
      lastAccessedAt = None, accessCount = 0, deliveredAt = None, deliveryAttempts = 0,
      lastDeliveryAttempt = None, deliveryStatus = ''not_started'', deliveryError = None\<rparr>"

definition shopDb :: db where
  "shopDb = \<lparr>payments = [pendingPayment], services = [svcPending, svcCancelled, svcOther]\<rparr>"

text \<open>
  A second store for the pending payment: a pending service whose duration, in days, takes
  the expiry out of the range of dates, followed by an ordinary pending service.
\<close>

definition svcForever :: service where
  "svcForever =
     \<lparr>svc_id = 5, serviceId = ''SVC-5'', paymentId = Some 1, svc_status = ''pending'',
      duration = Some 100000000000, accessToken = None, accessGrantedAt = None,
      svc_expiresAt = None, lastAccessedAt = None, accessCount = 0, deliveredAt = None,
      deliveryAttempts = 0, lastDeliveryAttempt = None, deliveryStatus = ''not_started'',
      deliveryError = None\<rparr>"

definition longDb :: db where
  "longDb = \<lparr>payments = [pendingPayment], services = [svcForever, svcPending]\<rparr>"

text \<open>
  A completed payment with two of its services: one cancelled, one active whose
  \<^verbatim>\<open>expiresAt\<close> has passed at time 10.
\<close>

definition completedPayment :: payment where
  "completedPayment =
     \<lparr>pay_id = 1, orderId = ''ORDER-1'', pay_status = Str ''completed'',
      paymentStatus = Str ''COMPLETED'',
      statusHistory = [\<lparr>entry_status = Str ''completed'', entry_message = ''Webhook: COMPLETED'',
                        entry_source = ''webhook'', entry_timestamp = 5\<rparr>],
      externalReference = None, completedAt = Some 5, failedAt = None\<rparr>"

definition svcLapsed :: service where
  "svcLapsed =
     \<lparr>svc_id = 4, serviceId = ''SVC-4'', paymentId = Some 1, svc_status = ''active'',
      duration = Some 1, accessToken = Some ''ACCESS_OLD4'', accessGrantedAt = Some 1,
      svc_expiresAt = Some 7, lastAccessedAt = None, accessCount = 0, deliveredAt = Some 1,
      deliveryAttempts = 1, lastDeliveryAttempt = Some 1, deliveryStatus = ''completed'',
      deliveryError = None\<rparr>"

definition paidDb :: db where
  "paidDb = \<lparr>payments = [completedPayment], services = [svcCancelled, svcLapsed]\<rparr>"

text \<open>A reusable control number with three uses, valid until time 1000.\<close>

definition noInfo :: usedByInfo where
  "noInfo = \<lparr>info_name = None, info_phone = None, info_network = None\<rparr>"

definition reusable :: controlNumber where
  "reusable =
     \<lparr>cn_id = 2, cn_code = ''ZENO2'', amount = 5000, currency = ''TZS'', cn_status = ''active'',
      paymentReference = None, usedAt = None, usedBy = noInfo, cn_expiresAt = 1000,
      validUntil = 1000, isReusable = True, maxUses = 3, currentUses = 0\<rparr>"

text \<open>
  Times of the clock, in milliseconds since the epoch: \<open>today\<close> is in November 2023,
  \<open>lastYear\<close> before it and \<open>nextYear\<close> after it.
\<close>

definition today :: int where
  "today = 1700000000000"

definition lastYear :: int where
  "lastYear = 1668000000000"

definition nextYear :: int where
  "nextYear = 1731000000000"

text \<open>A single-use control number that is valid today, and the payment data of a redeemer.\<close>

definition singleUse :: controlNumber where
  "singleUse =
     \<lparr>cn_id = 1, cn_code = ''ZENO1'', amount = 5000, currency = ''TZS'', cn_status = ''active'',
      paymentReference = None, usedAt = None, usedBy = noInfo, cn_expiresAt = nextYear,
      validUntil = nextYear, isReusable = False, maxUses = 1, currentUses = 0\<rparr>"

definition payer :: "nat \<Rightarrow> paymentData" where
  "payer i = \<lparr>phoneNumber = Some ''+255700000000'', customerName = None, pd_network = Some ''mtn''\<rparr>"

text \<open>
  The numbers issued: the single-use one, one already used, one past its
  \<^verbatim>\<open>validUntil\<close> only, one past its \<^verbatim>\<open>expiresAt\<close> only, and an active one with no
  uses left.
\<close>

definition usedNumber :: controlNumber where
  "usedNumber =
     \<lparr>cn_id = 3, cn_code = ''ZENOU'', amount = 5000, currency = ''TZS'', cn_status = ''used'',
      paymentReference = Some ''655f1a2b3c4d5e6f7a8b9c0d'', usedAt = Some lastYear, usedBy = noInfo,
      cn_expiresAt = nextYear, validUntil = nextYear, isReusable = False, maxUses = 1,
      currentUses = 1\<rparr>"

definition lapsedValidity :: controlNumber where
  "lapsedValidity =
     \<lparr>cn_id = 4, cn_code = ''ZENOA'', amount = 5000, currency = ''TZS'', cn_status = ''active'',
      paymentReference = None, usedAt = None, usedBy = noInfo, cn_expiresAt = nextYear,
      validUntil = lastYear, isReusable = False, maxUses = 1, currentUses = 0\<rparr>"

definition lapsedExpiry :: controlNumber where
  "lapsedExpiry =
     \<lparr>cn_id = 5, cn_code = ''ZENOE'', amount = 5000, currency = ''TZS'', cn_status = ''active'',
      paymentReference = None, usedAt = None, usedBy = noInfo, cn_expiresAt = lastYear,
      validUntil = nextYear, isReusable = False, maxUses = 1, currentUses = 0\<rparr>"

definition usedUp :: controlNumber where
  "usedUp =
     \<lparr>cn_id = 6, cn_code = ''ZENOB'', amount = 5000, currency = ''TZS'', cn_status = ''active'',
      paymentReference = None, usedAt = None, usedBy = noInfo, cn_expiresAt = nextYear,
      validUntil = nextYear, isReusable = True, maxUses = 2, currentUses = 2\<rparr>"

definition issued :: registry where
  "issued = [singleUse, usedNumber, lapsedValidity, lapsedExpiry, usedUp]"

text \<open>
  A result of \<open>useControlNumber\<close> with the payment reference blanked: in the error that
  quotes it, in the value returned and in the registry.
\<close>

definition forgetQuoted :: "errorMessage \<Rightarrow> errorMessage" where
  "forgetQuoted e = (case e of Message m \<Rightarrow> Message m | CastToObjectIdFailed r \<Rightarrow> CastToObjectIdFailed [])"

definition forgetReference ::
  "(errorMessage + usage) \<times> registry \<Rightarrow> (errorMessage + usage) \<times> registry" where
  "forgetReference r =
     (map_sum forgetQuoted (\<lambda>u. u\<lparr>use_paymentReference := []\<rparr>) (fst r),
      map (\<lambda>c. c\<lparr>paymentReference := None\<rparr>) (snd r))"

section \<open>Facts about the store and the status update\<close>

lemmas eval_defs =
  handleZenopayWebhook_def webhookStatus_def js_get_def js_or_def statusMap_def updateStatus_def
  Let_def savePayment_def validPayment_def validEntry_def inEnum_def paymentStatusEnum_def
  zenopayStatusEnum_def sourceEnum_def js_get_val_def zenopayStatusMap_def deliverServices_def
  storedStatus_def objectPrototypeKeys_def

lemma find_Some_mem: "find P xs = Some x \<Longrightarrow> x \<in> set xs \<and> P x"
  by (induction xs) (auto split: if_splits)

lemma updateStatus_status: "pay_status (updateStatus p s m src now) = s"
  by (simp add: updateStatus_def Let_def)

lemma updateStatus_same: "updateStatus p (pay_status p) m src now = p"
  by (simp add: updateStatus_def)

lemma updateStatus_ids:
  "pay_id (updateStatus p s m src now) = pay_id p"
  "orderId (updateStatus p s m src now) = orderId p"
  by (simp_all add: updateStatus_def Let_def)

text \<open>Writing a document back under its id keeps it the first match of a query it matched.\<close>

lemma find_replace:
  "find P xs = Some p \<Longrightarrow> distinct (map pay_id xs) \<Longrightarrow> pay_id p' = pay_id p \<Longrightarrow> P p' \<Longrightarrow>
   find P (map (\<lambda>q. if pay_id q = pay_id p' then p' else q) xs) = Some p'"
proof (induction xs)
  case Nil
  then show ?case by simp
next
  case (Cons x xs)
  show ?case
  proof (cases "P x")
    case True
    with Cons.prems have "x = p" by simp
    with Cons.prems True show ?thesis by simp
  next
    case False
    with Cons.prems have f: "find P xs = Some p" by simp
    then have "p \<in> set xs" by (simp add: find_Some_mem)
    with Cons.prems have "pay_id x \<noteq> pay_id p" by force
    with Cons f False show ?thesis by simp
  qed
qed

lemma validPayment_updateStatus:
  "validPayment p \<Longrightarrow> s \<in> set paymentStatusEnum \<Longrightarrow>
   validPayment ((updateStatus p (Str s) m ''webhook'' now)\<lparr>externalReference := r\<rparr>)"
  by (auto simp: validPayment_def updateStatus_def Let_def validEntry_def inEnum_def
      paymentStatusEnum_def zenopayStatusEnum_def sourceEnum_def js_get_val_def js_get_def
      js_or_def zenopayStatusMap_def)

text \<open>Saving and delivering services leaves the payments alone.\<close>

lemma saveService_payments: "saveService d l s = Inr d1 \<Longrightarrow> payments d1 = payments d"
  by (auto simp: saveService_def split: option.splits)

lemma deliverSingleService_payments:
  "deliverSingleService tok now d s = Inr d1 \<Longrightarrow> payments d1 = payments d"
  by (auto simp: deliverSingleService_def Let_def dest: saveService_payments split: sum.splits)

lemma deliverServices_loop_payments: "payments (deliverServices_loop tok now d ss) = payments d"
  by (induction ss arbitrary: d) (auto dest: deliverSingleService_payments split: sum.splits)

lemma deliverServices_payments: "payments (deliverServices tok now d p) = payments d"
  by (simp add: deliverServices_def Let_def deliverServices_loop_payments)

text \<open>The handler, once the order is given and its payment found.\<close>

lemma handleZenopayWebhook_found:
  assumes "find (\<lambda>q. orderId q = order_id w) (payments d) = Some p"
      and "order_id w \<noteq> []"
      and "newStatus = webhookStatus (payment_status w)"
      and "p1 = (updateStatus p newStatus (''Webhook: '' @ payment_status w) ''webhook'' now)
                  \<lparr>externalReference := wh_reference w\<rparr>"
  shows "handleZenopayWebhook this tok now d w =
     (if pay_status p \<noteq> newStatus then
        (case savePayment d p1 of
           None \<Rightarrow> (Failure 500 ''Webhook processing failed'', d)
         | Some d1 \<Rightarrow>
             if newStatus = Str ''completed'' then
               (case this of
                  Controller \<Rightarrow> (Processed (pay_id p1) (pay_status p1), deliverServices tok now d1 p1)
                | Unbound \<Rightarrow> (Failure 500 ''Webhook processing failed'', d1))
             else (Processed (pay_id p1) (pay_status p1), d1))
      else (Processed (pay_id p) (pay_status p), d))"
  unfolding assms(3,4) handleZenopayWebhook_def Let_def
  by (simp only: assms(1,2) if_False option.simps)


section \<open>Terminal statuses are not protected\<close>

text \<open>
  Claim C1 says that a payment whose stored status is terminal (completed, failed or
  cancelled) rejects every status update that carries a different status, so that its
  stored status never changes again. The code has no such guard: \<open>updateStatus\<close> and the
  webhook handler compare the new status with the current one only. The failed payment of
  order \<open>ORDER-1\<close> is terminal, and a later \<open>COMPLETED\<close> notification changes both the
  document and the stored status to completed.
\<close>

theorem terminal_status_counterexample:
  "terminal (pay_status failedPayment) \<and>
   Str ''completed'' \<noteq> pay_status failedPayment \<and>
   pay_status (updateStatus failedPayment (Str ''completed'') ''Webhook: COMPLETED'' ''webhook'' 10)
     \<noteq> pay_status failedPayment \<and>
   storedStatus \<lparr>payments = [failedPayment], services = []\<rparr> ''ORDER-1'' = Some (Str ''failed'') \<and>
   storedStatus (snd (zenopayRoute (\<lambda>s. ''TOKEN'') 10
       \<lparr>payments = [failedPayment], services = []\<rparr> (notify ''COMPLETED''))) ''ORDER-1''
     = Some (Str ''completed'') \<and>
   storedStatus (snd (handleZenopayWebhook Controller (\<lambda>s. ''TOKEN'') 10
       \<lparr>payments = [failedPayment], services = []\<rparr> (notify ''COMPLETED''))) ''ORDER-1''
     = Some (Str ''completed'')"
  by (simp add: terminal_def notify_def failedPayment_def zenopayRoute_def eval_defs)

text \<open>
  Claim C1, amended: terminal payments are not protected. For every payment, terminal or
  not, and all message and source arguments, a status update that carries the payment's
  current status leaves the payment unchanged, and one that carries a different status is
  applied: afterwards the document's status is the new one. Through the webhook, for every
  stored valid payment, the stored status after a notification is the notified status
  whenever the schema's enum admits it (pending, completed, failed, cancelled), whether the
  handler runs on its controller or is called on its own, as the route calls it.
\<close>

theorem webhook_overwrites_stored_status:
  assumes "find (\<lambda>q. orderId q = order_id w) (payments d) = Some p"
      and "order_id w \<noteq> []"
      and "distinct (map pay_id (payments d))"
      and "validPayment p"
      and "webhookStatus (payment_status w) = Str s"
      and "s \<in> set paymentStatusEnum"
  shows "storedStatus (snd (handleZenopayWebhook this tok now d w)) (order_id w) = Some (Str s) \<and>
         pay_status (updateStatus p v m src now) = v \<and>
         updateStatus p (pay_status p) m src now = p"
proof -
  have oid: "orderId p = order_id w" using assms(1) by (auto dest: find_Some_mem)
  have upd: "pay_status (updateStatus p v m src now) = v"
    by (rule updateStatus_status)
  have same: "updateStatus p (pay_status p) m src now = p"
    by (rule updateStatus_same)
  have stored: "storedStatus (snd (handleZenopayWebhook this tok now d w)) (order_id w) = Some (Str s)"
  proof (cases "pay_status p = Str s")
    case True
    with assms show ?thesis
      by (simp add: handleZenopayWebhook_def storedStatus_def Let_def)
  next
    case False
    define p1 where "p1 = (updateStatus p (Str s) (''Webhook: '' @ payment_status w) ''webhook'' now)
                         \<lparr>externalReference := wh_reference w\<rparr>"
    have v: "validPayment p1" unfolding p1_def using assms(4,6) by (rule validPayment_updateStatus)
    have ids: "pay_id p1 = pay_id p" "orderId p1 = order_id w" "pay_status p1 = Str s"
      by (simp_all add: p1_def updateStatus_ids oid updateStatus_status)
    define d1 where
      "d1 = d\<lparr>payments := map (\<lambda>q. if pay_id q = pay_id p1 then p1 else q) (payments d)\<rparr>"
    have f: "find (\<lambda>q. orderId q = order_id w) (payments d1) = Some p1"
      unfolding d1_def using find_replace[OF assms(1) assms(3), of p1] ids by simp
    have sv: "savePayment d p1 = Some d1"
      using v by (simp add: savePayment_def d1_def)
    have h: "handleZenopayWebhook this tok now d w =
          (if Str s = Str ''completed'' then
             (case this of
                Controller \<Rightarrow> (Processed (pay_id p1) (pay_status p1), deliverServices tok now d1 p1)
              | Unbound \<Rightarrow> (Failure 500 ''Webhook processing failed'', d1))
           else (Processed (pay_id p1) (pay_status p1), d1))"
      using handleZenopayWebhook_found[OF assms(1,2) assms(5)[symmetric] p1_def] False sv
      by simp
    have "payments (snd (handleZenopayWebhook this tok now d w)) = payments d1"
      unfolding h by (simp add: deliverServices_payments split: receiver.splits)
    with f ids show ?thesis by (simp add: storedStatus_def)
  qed
  from stored upd same show ?thesis by simp
qed

theorem webhook_overwrites_stored_status_witness:
  "storedStatus (snd (handleZenopayWebhook Unbound (\<lambda>s. ''TOKEN'') 10
       \<lparr>payments = [failedPayment], services = []\<rparr> (notify ''COMPLETED''))) ''ORDER-1''
     = Some (Str ''completed'') \<and>
   pay_status (updateStatus failedPayment (Str ''completed'') ''Webhook: COMPLETED'' ''webhook'' 10)
     = Str ''completed''"
  using webhook_overwrites_stored_status
    [of "notify ''COMPLETED''" "\<lparr>payments = [failedPayment], services = []\<rparr>" failedPayment
        "''completed''" Unbound "\<lambda>s. ''TOKEN''" 10 "Str ''completed''" "''Webhook: COMPLETED''" "''webhook''"]
  by (simp add: notify_def failedPayment_def validPayment_def validEntry_def inEnum_def
      paymentStatusEnum_def zenopayStatusEnum_def sourceEnum_def webhookStatus_def js_get_def
      js_or_def statusMap_def)


section \<open>Service delivery on completion\<close>

text \<open>
  A save that is rejected in the \<^verbatim>\<open>try\<close> block of \<open>deliverSingleService\<close> is rejected
  again in its \<^verbatim>\<open>catch\<close> branch, which has changed only the delivery status and the
  delivery error: the function either throws, or it stores the service activated, with
  one more delivery attempt.
\<close>

lemma rejects_delivery_fields:
  "rejects d l (s\<lparr>deliveryStatus := x, deliveryError := y\<rparr>) = rejects d l s"
  by (simp add: rejects_def tokenTaken_def cong: option.case_cong)

lemma deliverSingleService_stored:
  assumes "deliverSingleService tok now d s = Inr d1"
  shows "\<exists>s'. svc_id s' = svc_id s \<and> svc_status s' = ''active'' \<and>
              deliveryAttempts s' = deliveryAttempts s + 1 \<and> rejects d s s' = None \<and>
              d1 = d\<lparr>services := map (\<lambda>t. if svc_id t = svc_id s then s' else t) (services d)\<rparr>"
proof -
  define s4 where "s4 =
     (let s1 = s\<lparr>deliveryAttempts := deliveryAttempts s + 1, lastDeliveryAttempt := Some now\<rparr>;
          s2 = activate now s1;
          s3 = s2\<lparr>deliveryStatus := ''completed''\<rparr>
      in case accessToken s3 of
           None \<Rightarrow> s3\<lparr>accessToken := Some (tok s3)\<rparr>
         | Some t \<Rightarrow> (if t = [] then s3\<lparr>accessToken := Some (tok s3)\<rparr> else s3))"
  have f: "svc_id s4 = svc_id s" "svc_status s4 = ''active''"
          "deliveryAttempts s4 = deliveryAttempts s + 1"
    by (simp_all add: s4_def Let_def activate_def split: option.splits)
  have e: "deliverSingleService tok now d s =
        (case saveService d s s4 of
           Inr d1 \<Rightarrow> Inr d1
         | Inl e \<Rightarrow> saveService d s (s4\<lparr>deliveryStatus := ''failed'', deliveryError := Some e\<rparr>))"
    unfolding deliverSingleService_def s4_def Let_def by (rule refl)
  show ?thesis
  proof (cases "rejects d s s4")
    case None
    with assms e f show ?thesis by (auto simp: saveService_def)
  next
    case (Some r)
    with assms e show ?thesis by (simp add: saveService_def rejects_delivery_fields)
  qed
qed

text \<open>
  Called on the controller, delivery changes only services that were found pending for the
  payment: each service of the store is afterwards as it was, or it was found and is now
  active with one more delivery attempt.
\<close>

lemma deliverServices_loop_services:
  "distinct (map svc_id (services d)) \<Longrightarrow> set ss \<subseteq> set (services d) \<Longrightarrow>
   distinct (map svc_id ss) \<Longrightarrow>
   list_all2 (\<lambda>t t'. t' = t \<or> (t \<in> set ss \<and> svc_id t' = svc_id t \<and> svc_status t' = ''active'' \<and>
                              deliveryAttempts t' = deliveryAttempts t + 1))
     (services d) (services (deliverServices_loop tok now d ss))"
proof (induction ss arbitrary: d)
  case Nil
  then show ?case by (simp add: list_all2_same)
next
  case (Cons s ss)
  let ?R = "\<lambda>xs t t'. t' = t \<or> (t \<in> set xs \<and> svc_id t' = svc_id t \<and> svc_status t' = ''active'' \<and>
                              deliveryAttempts t' = deliveryAttempts t + 1)"
  show ?case
  proof (cases "deliverSingleService tok now d s")
    case (Inl e)
    then show ?thesis by (simp add: list_all2_same)
  next
    case (Inr d1)
    then obtain s' where s': "svc_id s' = svc_id s" "svc_status s' = ''active''"
        "deliveryAttempts s' = deliveryAttempts s + 1"
        and d1: "d1 = d\<lparr>services := map (\<lambda>t. if svc_id t = svc_id s then s' else t) (services d)\<rparr>"
      using deliverSingleService_stored by blast
    have inj: "inj_on svc_id (set (services d))"
      using Cons.prems(1) by (simp add: distinct_map)
    have sin: "s \<in> set (services d)" using Cons.prems(2) by simp
    have only: "t = s" if "t \<in> set (services d)" "svc_id t = svc_id s" for t
      using inj that sin by (auto dest: inj_onD)
    have notin: "svc_id s \<notin> svc_id ` set ss" using Cons.prems(3) by simp
    have ids: "map svc_id (services d1) = map svc_id (services d)"
      unfolding d1 by (simp add: comp_def s'(1) cong: map_cong)
    have dist1: "distinct (map svc_id (services d1))" using Cons.prems(1) ids by simp
    have sub1: "set ss \<subseteq> set (services d1)"
    proof
      fix t assume t: "t \<in> set ss"
      then have "t \<in> set (services d)" using Cons.prems(2) by auto
      moreover have "svc_id t \<noteq> svc_id s" using t notin by (metis imageI)
      ultimately show "t \<in> set (services d1)" unfolding d1 by force
    qed
    have ih: "list_all2 (?R ss) (services d1) (services (deliverServices_loop tok now d1 ss))"
      using dist1 sub1 Cons.prems(3) by (intro Cons.IH) simp_all
    have first: "list_all2 (\<lambda>t u. t \<in> set (services d) \<and> u = (if svc_id t = svc_id s then s' else t))
                   (services d) (services d1)"
      unfolding d1 by (simp add: list_all2_map2 list_all2_same)
    have "list_all2 (?R (s # ss)) (services d) (services (deliverServices_loop tok now d1 ss))"
    proof (rule list_all2_trans[OF _ first ih])
      fix t u t'
      assume "t \<in> set (services d) \<and> u = (if svc_id t = svc_id s then s' else t)"
      then have tin: "t \<in> set (services d)" and u: "u = (if svc_id t = svc_id s then s' else t)"
        by simp_all
      assume r: "?R ss u t'"
      show "?R (s # ss) t t'"
      proof (cases "svc_id t = svc_id s")
        case True
        with u have us: "u = s'" by simp
        have "s' \<notin> set ss" using notin s'(1) by (metis imageI)
        with r us have "t' = s'" by simp
        moreover have "t = s" using tin True by (rule only)
        ultimately show ?thesis using s' by simp
      next
        case False
        with u r show ?thesis by auto
      qed
    qed
    with Inr show ?thesis by simp
  qed
qed


lemma deliverServices_services:
  assumes "distinct (map svc_id (services d))"
  shows "list_all2 (\<lambda>t t'. t' = t \<or> (pendingFor p t \<and> svc_id t' = svc_id t \<and> svc_status t' = ''active'' \<and>
                                deliveryAttempts t' = deliveryAttempts t + 1))
           (services d) (services (deliverServices tok now d p))"
proof (cases "filter (pendingFor p) (services d) = []")
  case True
  then show ?thesis by (simp add: deliverServices_def list_all2_same)
next
  case False
  let ?found = "filter (pendingFor p) (services d)"
  have "list_all2 (\<lambda>t t'. t' = t \<or> (t \<in> set ?found \<and> svc_id t' = svc_id t \<and> svc_status t' = ''active'' \<and>
                              deliveryAttempts t' = deliveryAttempts t + 1))
     (services d) (services (deliverServices_loop tok now d ?found))"
    using assms by (intro deliverServices_loop_services) (simp_all add: distinct_map_filter)
  then have "list_all2 (\<lambda>t t'. t' = t \<or> (pendingFor p t \<and> svc_id t' = svc_id t \<and> svc_status t' = ''active'' \<and>
                                deliveryAttempts t' = deliveryAttempts t + 1))
     (services d) (services (deliverServices_loop tok now d ?found))"
    by (rule list_all2_mono) auto
  with False show ?thesis by (simp add: deliverServices_def Let_def)
qed

text \<open>
  Called on the controller, the handler delivers the pending service of the shop's payment
  once: the second notification changes nothing.
\<close>

lemma bound_delivery_example:
  "map svc_status
       (services (snd (handleZenopayWebhook Controller (\<lambda>s. ''TOKEN'') 10 shopDb (notify ''COMPLETED''))))
     = [''active'', ''cancelled'', ''pending''] \<and>
   map deliveryAttempts
       (services (snd (handleZenopayWebhook Controller (\<lambda>s. ''TOKEN'') 10 shopDb (notify ''COMPLETED''))))
     = [1, 1, 0] \<and>
   handleZenopayWebhook Controller (\<lambda>s. ''TOKEN2'') 20
       (snd (handleZenopayWebhook Controller (\<lambda>s. ''TOKEN'') 10 shopDb (notify ''COMPLETED'')))
       (notify ''COMPLETED'')
     = (Processed 1 (Str ''completed''),
        snd (handleZenopayWebhook Controller (\<lambda>s. ''TOKEN'') 10 shopDb (notify ''COMPLETED'')))"
  by code_simp

text \<open>
  A service whose expiry leaves the range of dates is rejected by the store, in the
  \<^verbatim>\<open>try\<close> block and again in the \<^verbatim>\<open>catch\<close> branch; the loop ends there, and the
  pending service after it is not delivered, while the handler answers 200.
\<close>

lemma aborted_delivery_example:
  "fst (handleZenopayWebhook Controller (\<lambda>s. ''TOKEN'') today longDb (notify ''COMPLETED''))
     = Processed 1 (Str ''completed'') \<and>
   services (snd (handleZenopayWebhook Controller (\<lambda>s. ''TOKEN'') today longDb (notify ''COMPLETED'')))
     = [svcForever, svcPending]"
  by code_simp

text \<open>
  Claim C3 says that applying the status completed to the same payment twice activates
  its services exactly once. The route hands the handler to the router without its
  controller, so the read of \<^verbatim>\<open>this.deliverServices\<close> throws: for a stored valid payment
  that is not yet completed, the first \<open>COMPLETED\<close> notification stores completed, is
  answered 500 and leaves every service as it was; the second finds the status equal to
  the current one, answers 200 and leaves the whole store unchanged. The services of the
  payment are activated by neither.
\<close>

theorem routed_completion_delivers_nothing:
  assumes "find (\<lambda>q. orderId q = order_id w) (payments d) = Some p"
      and "order_id w \<noteq> []"
      and "payment_status w = ''COMPLETED''"
      and "pay_status p \<noteq> Str ''completed''"
      and "validPayment p"
      and "distinct (map pay_id (payments d))"
  shows "let r1 = zenopayRoute tok t1 d w;
             r2 = zenopayRoute tok' t2 (snd r1) w
         in fst r1 = Failure 500 ''Webhook processing failed'' \<and>
            storedStatus (snd r1) (order_id w) = Some (Str ''completed'') \<and>
            services (snd r1) = services d \<and>
            r2 = (Processed (pay_id p) (Str ''completed''), snd r1) \<and>
            filter (pendingFor p) (services (snd r2)) = filter (pendingFor p) (services d)"
proof -
  have oid: "orderId p = order_id w" using assms(1) by (auto dest: find_Some_mem)
  have ns: "webhookStatus (payment_status w) = Str ''completed''"
    using assms(3) by (simp add: webhookStatus_def js_get_def js_or_def statusMap_def)
  define p1 where "p1 = (updateStatus p (Str ''completed'') (''Webhook: '' @ payment_status w) ''webhook'' t1)
                         \<lparr>externalReference := wh_reference w\<rparr>"
  have v: "validPayment p1" unfolding p1_def using assms(5)
    by (rule validPayment_updateStatus) (simp add: paymentStatusEnum_def)
  have ids: "pay_id p1 = pay_id p" "orderId p1 = order_id w" "pay_status p1 = Str ''completed''"
    by (simp_all add: p1_def updateStatus_ids oid updateStatus_status)
  define d1 where
    "d1 = d\<lparr>payments := map (\<lambda>q. if pay_id q = pay_id p1 then p1 else q) (payments d)\<rparr>"
  have f: "find (\<lambda>q. orderId q = order_id w) (payments d1) = Some p1"
    unfolding d1_def using find_replace[OF assms(1) assms(6), of p1] ids by simp
  have sv: "savePayment d p1 = Some d1"
    using v by (simp add: savePayment_def d1_def)
  have h1: "zenopayRoute tok t1 d w = (Failure 500 ''Webhook processing failed'', d1)"
    unfolding zenopayRoute_def
    using handleZenopayWebhook_found[OF assms(1,2) ns[symmetric] p1_def] assms(4) sv
    by simp
  have h2: "zenopayRoute tok' t2 d1 w = (Processed (pay_id p) (Str ''completed''), d1)"
    unfolding zenopayRoute_def
    using handleZenopayWebhook_found[OF f assms(2) ns[symmetric] refl] ids by simp
  have st: "storedStatus d1 (order_id w) = Some (Str ''completed'')"
    using f ids by (simp add: storedStatus_def)
  have sd: "services d1 = services d" by (simp add: d1_def)
  show ?thesis using h1 h2 st sd by (simp add: Let_def)
qed

theorem routed_completion_delivers_nothing_witness:
  "fst (zenopayRoute (\<lambda>s. ''TOKEN'') 10 shopDb (notify ''COMPLETED''))
     = Failure 500 ''Webhook processing failed'' \<and>
   storedStatus (snd (zenopayRoute (\<lambda>s. ''TOKEN'') 10 shopDb (notify ''COMPLETED''))) ''ORDER-1''
     = Some (Str ''completed'') \<and>
   fst (zenopayRoute (\<lambda>s. ''TOKEN2'') 20
         (snd (zenopayRoute (\<lambda>s. ''TOKEN'') 10 shopDb (notify ''COMPLETED''))) (notify ''COMPLETED''))
     = Processed 1 (Str ''completed'') \<and>
   map svc_status (services (snd (zenopayRoute (\<lambda>s. ''TOKEN2'') 20
         (snd (zenopayRoute (\<lambda>s. ''TOKEN'') 10 shopDb (notify ''COMPLETED''))) (notify ''COMPLETED''))))
     = [''pending'', ''cancelled'', ''pending''] \<and>
   filter (pendingFor pendingPayment) (services (snd (zenopayRoute (\<lambda>s. ''TOKEN2'') 20
         (snd (zenopayRoute (\<lambda>s. ''TOKEN'') 10 shopDb (notify ''COMPLETED''))) (notify ''COMPLETED''))))
     = [svcPending]"
  using routed_completion_delivers_nothing
    [of "notify ''COMPLETED''" shopDb pendingPayment "\<lambda>s. ''TOKEN''" 10 "\<lambda>s. ''TOKEN2''" 20]
  by (simp add: shopDb_def notify_def pendingPayment_def svcPending_def svcCancelled_def svcOther_def
      validPayment_def inEnum_def paymentStatusEnum_def zenopayStatusEnum_def Let_def
      pendingFor_def)


section \<open>The status processing\<close>

text \<open>
  Claim C8 says that applying the status processing to a pending payment succeeds and
  leaves processing stored. The webhook's table maps \<open>PROCESSING\<close> to processing, but the
  payment schema's enum for \<^verbatim>\<open>status\<close> has no such member: the updated document fails
  validation, the save is rejected, the handler answers 500 and the stored status stays
  pending.
\<close>

theorem processing_webhook_is_rejected:
  assumes "find (\<lambda>q. orderId q = order_id w) (payments d) = Some p"
      and "order_id w \<noteq> []"
      and "payment_status w = ''PROCESSING''"
      and "pay_status p = Str ''pending''"
  shows "handleZenopayWebhook this tok now d w = (Failure 500 ''Webhook processing failed'', d) \<and>
         storedStatus (snd (handleZenopayWebhook this tok now d w)) (order_id w) = Some (Str ''pending'')"
proof -
  have ns: "webhookStatus (payment_status w) = Str ''processing''"
    using assms(3) by (simp add: webhookStatus_def js_get_def js_or_def statusMap_def)
  have inv: "\<not> validPayment ((updateStatus p (Str ''processing'') m ''webhook'' now)
                \<lparr>externalReference := r\<rparr>)" for m r
    by (simp add: validPayment_def updateStatus_status inEnum_def paymentStatusEnum_def)
  have h: "handleZenopayWebhook this tok now d w = (Failure 500 ''Webhook processing failed'', d)"
    using assms(1,2,4) ns inv
    by (simp add: handleZenopayWebhook_def Let_def savePayment_def)
  with assms(1,4) show ?thesis by (simp add: storedStatus_def)
qed

theorem processing_webhook_is_rejected_witness:
  "zenopayRoute (\<lambda>s. ''TOKEN'') 10 \<lparr>payments = [pendingPayment], services = []\<rparr>
       (notify ''PROCESSING'')
     = (Failure 500 ''Webhook processing failed'', \<lparr>payments = [pendingPayment], services = []\<rparr>) \<and>
   storedStatus (snd (zenopayRoute (\<lambda>s. ''TOKEN'') 10
       \<lparr>payments = [pendingPayment], services = []\<rparr> (notify ''PROCESSING''))) ''ORDER-1''
     = Some (Str ''pending'') \<and>
   handleZenopayWebhook Controller (\<lambda>s. ''TOKEN'') 10 \<lparr>payments = [pendingPayment], services = []\<rparr>
       (notify ''PROCESSING'')
     = (Failure 500 ''Webhook processing failed'', \<lparr>payments = [pendingPayment], services = []\<rparr>)"
  using processing_webhook_is_rejected
    [of "notify ''PROCESSING''" "\<lparr>payments = [pendingPayment], services = []\<rparr>" pendingPayment
        Unbound "\<lambda>s. ''TOKEN''" 10]
    processing_webhook_is_rejected
    [of "notify ''PROCESSING''" "\<lparr>payments = [pendingPayment], services = []\<rparr>" pendingPayment
        Controller "\<lambda>s. ''TOKEN''" 10]
  by (simp add: notify_def pendingPayment_def storedStatus_def zenopayRoute_def)


section \<open>The status tables\<close>

text \<open>
  Every status string that is not the name of a member of \<^verbatim>\<open>Object.prototype\<close> is
  mapped into the canonical statuses, to pending when the table has no entry for it.
\<close>

lemma webhookStatus_canonical:
  "raw \<notin> set objectPrototypeKeys \<Longrightarrow>
   inEnum canonicalStatuses (webhookStatus raw) \<and>
   (map_of statusMap raw = None \<longrightarrow> webhookStatus raw = Str ''pending'')"
  by (simp add: webhookStatus_def js_get_def js_or_def statusMap_def inEnum_def
      canonicalStatuses_def)

lemma mapStatus_canonical:
  "raw \<notin> set objectPrototypeKeys \<Longrightarrow>
   inEnum canonicalStatuses (mapStatus raw) \<and>
   (map_of bankStatusMap raw = None \<longrightarrow> mapStatus raw = Str ''pending'')"
  by (simp add: mapStatus_def js_get_def js_or_def bankStatusMap_def inEnum_def
      canonicalStatuses_def)

text \<open>
  Claim C9 says that every status string absent from the lookup table maps to pending and
  that the mapping never leaves the canonical set. The string \<open>constructor\<close> is absent from
  both tables, but the property read finds the member every object literal inherits, which
  is truthy, so the default is not taken: the mapped value is that member, not pending and
  not a canonical status, and the webhook that carries it is answered 500.
\<close>

theorem inherited_key_is_not_defaulted:
  "map_of statusMap ''constructor'' = None \<and>
   webhookStatus ''constructor'' = Inherited ''constructor'' \<and>
   webhookStatus ''constructor'' \<noteq> Str ''pending'' \<and>
   \<not> inEnum canonicalStatuses (webhookStatus ''constructor'') \<and>
   map_of bankStatusMap ''constructor'' = None \<and>
   mapStatus ''constructor'' = Inherited ''constructor'' \<and>
   \<not> inEnum canonicalStatuses (mapStatus ''constructor'') \<and>
   handleZenopayWebhook this (\<lambda>s. ''TOKEN'') 10 \<lparr>payments = [pendingPayment], services = []\<rparr>
       (notify ''constructor'')
     = (Failure 500 ''Webhook processing failed'', \<lparr>payments = [pendingPayment], services = []\<rparr>)"
  by (simp add: mapStatus_def bankStatusMap_def canonicalStatuses_def notify_def
      pendingPayment_def eval_defs)


section \<open>Access checks\<close>

text \<open>
  The predicate \<open>isAccessible\<close> holds exactly when the status is active and the service
  has no \<^verbatim>\<open>expiresAt\<close> or the time is not past it.
\<close>

lemma isAccessible_iff:
  "isAccessible now s \<longleftrightarrow>
     svc_status s = ''active'' \<and> (case svc_expiresAt s of None \<Rightarrow> True | Some e \<Rightarrow> now \<le> e)"
  by (auto simp: isAccessible_def split: option.splits)

lemma activate_fields:
  "svc_status (activate now s) = ''active''" "svc_id (activate now s) = svc_id s"
  "serviceId (activate now s) = serviceId s" "paymentId (activate now s) = paymentId s"
  "accessToken (activate now s) = accessToken s"
  by (simp_all add: activate_def Let_def split: option.splits)

lemma recordAccess_fields:
  "svc_status (recordAccess now s) = svc_status s" "svc_id (recordAccess now s) = svc_id s"
  "serviceId (recordAccess now s) = serviceId s" "paymentId (recordAccess now s) = paymentId s"
  "accessToken (recordAccess now s) = accessToken s"
  "svc_expiresAt (recordAccess now s) = svc_expiresAt s"
  by (simp_all add: recordAccess_def)

lemma find_replace_service:
  "find P xs = Some s \<Longrightarrow> distinct (map svc_id xs) \<Longrightarrow> svc_id s' = svc_id s \<Longrightarrow> P s' \<Longrightarrow>
   find P (map (\<lambda>t. if svc_id t = svc_id s' then s' else t) xs) = Some s'"
proof (induction xs)
  case Nil
  then show ?case by simp
next
  case (Cons x xs)
  show ?case
  proof (cases "P x")
    case True
    with Cons.prems have "x = s" by simp
    with Cons.prems True show ?thesis by simp
  next
    case False
    with Cons.prems have f: "find P xs = Some s" by simp
    then have "s \<in> set xs" by (simp add: find_Some_mem)
    with Cons.prems have "svc_id x \<noteq> svc_id s" by force
    with Cons f False show ?thesis by simp
  qed
qed

text \<open>
  The save that records an access assigns neither the expiry nor the token: it is
  accepted whenever the service has its payment.
\<close>

lemma rejects_recordAccess:
  "paymentId s \<noteq> None \<Longrightarrow> rejects d s (recordAccess now s) = None"
  by (simp add: rejects_def recordAccess_fields)

text \<open>
  The save of an activation is rejected only for its new expiry: when the duration takes
  it out of the range of dates.
\<close>

lemma rejects_activate:
  "paymentId s \<noteq> None \<Longrightarrow>
   rejects d s (activate now s) =
     (if svc_expiresAt (activate now s) \<noteq> svc_expiresAt s \<and>
         (case svc_expiresAt (activate now s) of None \<Rightarrow> False | Some e \<Rightarrow> \<not> dateInRange e)
      then Some ExpiresAtNotADate else None)"
  by (auto simp: rejects_def activate_fields)

text \<open>
  The access check of a service that is pending, with a completed payment and a duration
  that takes its expiry out of the range of dates: the activation is not stored.
\<close>

lemma rejected_activation_example:
  "checkServiceAccess today \<lparr>payments = [completedPayment], services = [svcForever]\<rparr> ''SVC-5'' =
     (AccessFailed ExpiresAtNotADate, \<lparr>payments = [completedPayment], services = [svcForever]\<rparr>)"
  by code_simp

text \<open>
  Claim C7 says that an access check grants access exactly when \<open>isAccessible\<close> holds, so
  that a service that is expired, cancelled, suspended or past its \<^verbatim>\<open>expiresAt\<close> is
  denied and keeps its status. \<open>checkServiceAccess\<close> never consults the predicate: for
  every stored service whose payment is completed it grants access, and a service that is
  not active is activated and stored as active first. The one check that is not granted is
  answered 500 and changes nothing: the activation of a service whose duration takes its
  new expiry out of the range of dates, which the store rejects. The witness is a
  cancelled service, which is granted access and stored active, and an active service
  past its \<^verbatim>\<open>expiresAt\<close>, which is granted access.
\<close>

theorem access_check_ignores_accessibility:
  assumes "find (\<lambda>t. serviceId t = sid) (services d) = Some s"
      and "paymentId s = Some pid"
      and "find (\<lambda>q. pay_id q = pid) (payments d) = Some p"
      and "pay_status p = Str ''completed''"
      and "distinct (map svc_id (services d))"
  shows "svc_status (recordAccess now (if svc_status s \<noteq> ''active'' then activate now s else s))
           = ''active'' \<and>
         (case rejects d s (if svc_status s \<noteq> ''active'' then activate now s else s) of
            None \<Rightarrow>
              fst (checkServiceAccess now d sid) =
                AccessGranted
                  (recordAccess now (if svc_status s \<noteq> ''active'' then activate now s else s)) \<and>
              storedService (snd (checkServiceAccess now d sid)) sid =
                Some (recordAccess now (if svc_status s \<noteq> ''active'' then activate now s else s))
          | Some e \<Rightarrow>
              svc_status s \<noteq> ''active'' \<and> e = ExpiresAtNotADate \<and>
              checkServiceAccess now d sid = (AccessFailed e, d))"
proof -
  have sid: "serviceId s = sid" using assms(1) by (auto dest: find_Some_mem)
  have pay: "paymentId s \<noteq> None" using assms(2) by simp
  show ?thesis
  proof (cases "svc_status s = ''active''")
    case True
    have r0: "rejects d s s = None" using pay by (simp add: rejects_def)
    have r: "rejects d s (recordAccess now s) = None" using pay by (rule rejects_recordAccess)
    have "find (\<lambda>t. serviceId t = sid)
            (map (\<lambda>t. if svc_id t = svc_id (recordAccess now s) then recordAccess now s else t)
               (services d)) = Some (recordAccess now s)"
      using assms(1,5) by (rule find_replace_service) (simp_all add: recordAccess_fields sid)
    with assms True r r0 show ?thesis
      by (simp add: checkServiceAccess_def Let_def storedService_def saveService_def
          recordAccess_fields)
  next
    case False
    let ?a = "activate now s"
    let ?r = "recordAccess now ?a"
    have st: "svc_status ?r = ''active''" by (simp add: recordAccess_fields activate_fields)
    show ?thesis
    proof (cases "rejects d s ?a")
      case (Some e)
      then have "e = ExpiresAtNotADate"
        using rejects_activate[OF pay, of d now] by (simp split: if_splits)
      with assms False Some st show ?thesis
        by (simp add: checkServiceAccess_def Let_def saveService_def)
    next
      case None
      let ?xs1 = "map (\<lambda>t. if svc_id t = svc_id ?a then ?a else t) (services d)"
      let ?d1 = "d\<lparr>services := ?xs1\<rparr>"
      have s1: "saveService d s ?a = Inr ?d1" using None by (simp add: saveService_def)
      have r2: "rejects ?d1 ?a ?r = None"
        using pay by (intro rejects_recordAccess) (simp add: activate_fields)
      let ?xs2 = "map (\<lambda>t. if svc_id t = svc_id ?r then ?r else t) ?xs1"
      have s2: "saveService ?d1 ?a ?r = Inr (?d1\<lparr>services := ?xs2\<rparr>)"
        using r2 by (simp add: saveService_def)
      have f1: "find (\<lambda>t. serviceId t = sid) ?xs1 = Some ?a"
        using assms(1,5) by (rule find_replace_service) (simp_all add: activate_fields sid)
      have d1: "distinct (map svc_id ?xs1)"
      proof -
        have "map svc_id ?xs1 = map svc_id (services d)"
          unfolding map_map by (rule map_cong) (auto simp: activate_fields)
        with assms(5) show ?thesis by (simp only:)
      qed
      have f2: "find (\<lambda>t. serviceId t = sid) ?xs2 = Some ?r"
        using f1 d1 by (rule find_replace_service) (simp_all add: recordAccess_fields activate_fields sid)
      have c: "checkServiceAccess now d sid = (AccessGranted ?r, ?d1\<lparr>services := ?xs2\<rparr>)"
        using assms(1-4) False
        by (simp add: checkServiceAccess_def Let_def s1 s2 del: saveService_def)
      show ?thesis using False None st f2 unfolding c by (simp add: storedService_def)
    qed
  qed
qed

theorem access_check_ignores_accessibility_witness:
  "\<not> isAccessible 10 svcCancelled \<and>
   map_option svc_status (storedService paidDb ''SVC-2'') = Some ''cancelled'' \<and>
   fst (checkServiceAccess 10 paidDb ''SVC-2'') =
     AccessGranted (recordAccess 10 (activate 10 svcCancelled)) \<and>
   map_option svc_status (storedService (snd (checkServiceAccess 10 paidDb ''SVC-2'')) ''SVC-2'')
     = Some ''active'' \<and>
   \<not> isAccessible 10 svcLapsed \<and>
   fst (checkServiceAccess 10 paidDb ''SVC-4'') = AccessGranted (recordAccess 10 svcLapsed)"
proof -
  have h2: "find (\<lambda>t. serviceId t = ''SVC-2'') (services paidDb) = Some svcCancelled"
           "paymentId svcCancelled = Some 1"
           "find (\<lambda>q. pay_id q = 1) (payments paidDb) = Some completedPayment"
           "pay_status completedPayment = Str ''completed''"
           "distinct (map svc_id (services paidDb))"
    by (simp_all add: paidDb_def svcCancelled_def svcLapsed_def completedPayment_def)
  have h4: "find (\<lambda>t. serviceId t = ''SVC-4'') (services paidDb) = Some svcLapsed"
           "paymentId svcLapsed = Some 1"
    by (simp_all add: paidDb_def svcCancelled_def svcLapsed_def)
  have r2: "rejects paidDb svcCancelled (activate 10 svcCancelled) = None"
           "svc_status svcCancelled \<noteq> ''active''"
    by (simp_all add: rejects_def activate_def svcCancelled_def Let_def)
  have r4: "rejects paidDb svcLapsed svcLapsed = None" "svc_status svcLapsed = ''active''"
    by (simp_all add: rejects_def svcLapsed_def)
  have n: "\<not> isAccessible 10 svcCancelled" "\<not> isAccessible 10 svcLapsed"
          "map_option svc_status (storedService paidDb ''SVC-2'') = Some ''cancelled''"
    by (simp_all add: isAccessible_def svcCancelled_def svcLapsed_def storedService_def paidDb_def)
  from access_check_ignores_accessibility [OF h2, of 10] r2
  have a2: "fst (checkServiceAccess 10 paidDb ''SVC-2'') =
              AccessGranted (recordAccess 10 (activate 10 svcCancelled))"
           "storedService (snd (checkServiceAccess 10 paidDb ''SVC-2'')) ''SVC-2'' =
              Some (recordAccess 10 (activate 10 svcCancelled))"
    by simp_all
  from access_check_ignores_accessibility [OF h4 h2(3,4,5), of 10] r4
  have a4: "fst (checkServiceAccess 10 paidDb ''SVC-4'') = AccessGranted (recordAccess 10 svcLapsed)"
    by simp
  from a2 have st: "map_option svc_status
      (storedService (snd (checkServiceAccess 10 paidDb ''SVC-2'')) ''SVC-2'') = Some ''active''"
    by (simp add: recordAccess_fields activate_fields)
  from n a2 a4 st show ?thesis by simp
qed


section \<open>Redemption\<close>

lemma markAsUsed_active:
  assumes "cn_status c = ''active''"
  shows "\<exists>c'. markAsUsed now ref info c = Inr c' \<and> cn_status c' = ''used'' \<and>
              currentUses c' = currentUses c + 1 \<and> usedAt c' = Some now \<and>
              paymentReference c' = Some ref \<and> cn_id c' = cn_id c \<and> cn_code c' = cn_code c"
  using assms by (simp add: markAsUsed_def Let_def)

text \<open>
  Claim C4 says that a successful redemption adds one to \<^verbatim>\<open>currentUses\<close>, records
  \<^verbatim>\<open>usedAt\<close> and the redeemer, and sets the status to used unless the number is
  reusable and has uses left after the increment, in which case it stays active.
  \<open>markAsUsed\<close> sets the status to used before it looks at \<^verbatim>\<open>isReusable\<close>, and the
  later test can only set it to used again: every successful call leaves the status used,
  also for a reusable number with uses left, as the witness shows.
\<close>

theorem markAsUsed_deactivates_reusable:
  assumes "cn_status c = ''active''"
  shows "\<exists>c'. markAsUsed now ref info c = Inr c' \<and> cn_status c' = ''used'' \<and>
              currentUses c' = currentUses c + 1 \<and> usedAt c' = Some now \<and>
              paymentReference c' = Some ref"
  using assms by (simp add: markAsUsed_def Let_def)

theorem markAsUsed_deactivates_reusable_witness:
  "isReusable reusable \<and> currentUses reusable + 1 < maxUses reusable \<and>
   markAsUsed 10 ''ORDER-1'' noInfo reusable =
     Inr (reusable\<lparr>cn_status := ''used'', usedAt := Some 10, paymentReference := Some ''ORDER-1'',
                   currentUses := 1\<rparr>)"
  using markAsUsed_deactivates_reusable [of reusable 10 "''ORDER-1''" noInfo]
  by (simp add: reusable_def noInfo_def markAsUsed_def Let_def truthy_def)


section \<open>The payment reference of a redemption\<close>

text \<open>A number of at least \<open>k + 1\<close> digits is printed with at least \<open>k + 1\<close> characters.\<close>

lemma showNat_length: "10 ^ k \<le> n \<Longrightarrow> k < length (showNat n)"
proof (induction n arbitrary: k rule: showNat.induct)
  case (1 n)
  show ?case
  proof (cases k)
    case 0
    then show ?thesis by (simp add: showNat.simps[of n])
  next
    case (Suc j)
    with "1.prems" have big: "10 * 10 ^ j \<le> n" by simp
    then have n10: "\<not> n < 10" using one_le_power[of "10::nat" j] by linarith
    from big have "10 ^ j \<le> n div 10" by (simp add: less_eq_div_iff_mult_less_eq mult.commute)
    with n10 have "j < length (showNat (n div 10))" by (intro "1.IH") simp_all
    with n10 Suc show ?thesis by (simp add: showNat.simps[of n])
  qed
qed

lemma showInt_length: "100000000 \<le> now \<Longrightarrow> 8 < length (showInt now)"
proof -
  assume a: "100000000 \<le> now"
  then have "(10::nat) ^ 8 \<le> nat now" by simp
  then have "8 < length (showNat (nat now))" by (rule showNat_length)
  with a show ?thesis by (simp add: showInt_def)
qed

text \<open>
  The payment reference \<^verbatim>\<open>CN_<code>_<time>\<close> that \<open>useControlNumber\<close> builds is no
  \<^verbatim>\<open>ObjectId\<close>: the letter N is no hexadecimal digit, and with the time the clock has
  read since 1973 the string is longer than 12 characters.
\<close>

lemma reference_is_not_hex: "\<not> list_all isHex (''CN_'' @ s @ ''_'' @ t)"
  by (simp add: isHex_def)

lemma reference_does_not_cast:
  assumes "100000000 \<le> now"
  shows "\<not> castsToObjectId (''CN_'' @ s @ ''_'' @ showInt now)"
proof
  assume "castsToObjectId (''CN_'' @ s @ ''_'' @ showInt now)"
  then have "list_all isHex (''CN_'' @ s @ ''_'' @ showInt now) \<or>
             length (''CN_'' @ s @ ''_'' @ showInt now) = 12"
    unfolding castsToObjectId_def by blast
  then show False
  proof
    assume "list_all isHex (''CN_'' @ s @ ''_'' @ showInt now)"
    with reference_is_not_hex show False by blast
  next
    assume "length (''CN_'' @ s @ ''_'' @ showInt now) = 12"
    then have "length (showInt now) \<le> 8" by simp
    with showInt_length[OF assms] show False by simp
  qed
qed

text \<open>So the rest of a redemption never succeeds and never writes.\<close>

lemma rest_fails:
  assumes "100000000 \<le> now"
  shows "isl (fst (useControlNumber_rest reg now s pd found)) \<and>
         snd (useControlNumber_rest reg now s pd found) = reg"
proof (cases found)
  case None
  then show ?thesis by (simp add: useControlNumber_rest_def)
next
  case (Some c)
  show ?thesis
  proof (cases "canBeUsed now c")
    case False
    with Some show ?thesis by (simp add: useControlNumber_rest_def)
  next
    case True
    let ?ref = "''CN_'' @ s @ ''_'' @ showInt now"
    from True have "cn_status c = ''active''" by (simp add: canBeUsed_def isValid_def)
    then obtain c' where m: "markAsUsed now ?ref
        \<lparr>info_name = customerName pd, info_phone = phoneNumber pd, info_network = pd_network pd\<rparr> c
        = Inr c'" and r: "paymentReference c' = Some ?ref"
      using markAsUsed_active by blast
    have "saveControlNumber reg c' = Inl (CastToObjectIdFailed ?ref)"
      using r reference_does_not_cast[OF assms, of s]
    by (simp add: saveControlNumber_def del: append.simps)
    with Some True m show ?thesis
      by (simp add: useControlNumber_rest_def Let_def del: append.simps)
  qed
qed

lemma rest_cast_fails:
  assumes "100000000 \<le> now" and "canBeUsed now c"
  shows "useControlNumber_rest reg now s pd (Some c) =
           (Inl (CastToObjectIdFailed (''CN_'' @ s @ ''_'' @ showInt now)), reg)"
proof -
  let ?ref = "''CN_'' @ s @ ''_'' @ showInt now"
  from assms(2) have "cn_status c = ''active''" by (simp add: canBeUsed_def isValid_def)
  then obtain c' where m: "markAsUsed now ?ref
      \<lparr>info_name = customerName pd, info_phone = phoneNumber pd, info_network = pd_network pd\<rparr> c
      = Inr c'" and r: "paymentReference c' = Some ?ref"
    using markAsUsed_active by blast
  have "saveControlNumber reg c' = Inl (CastToObjectIdFailed ?ref)"
    using r reference_does_not_cast[OF assms(1), of s]
    by (simp add: saveControlNumber_def del: append.simps)
  with assms(2) m show ?thesis
    by (simp add: useControlNumber_rest_def Let_def del: append.simps)
qed

lemma step_fails:
  assumes "\<And>i. 100000000 \<le> clock i"
  shows "fl_registry (step clock s pd st e) = fl_registry st \<and>
         successes (step clock s pd st e) = successes st"
proof (cases e)
  case (Find i)
  then show ?thesis by (simp add: step_def successes_def)
next
  case (Finish i)
  show ?thesis
  proof (cases "map_of (fl_found st) i")
    case None
    with Finish show ?thesis by (simp add: step_def)
  next
    case (Some found)
    with Finish rest_fails[of "clock i" "fl_registry st" s "pd i" found, OF assms] show ?thesis
      by (simp add: step_def Let_def successes_def)
  qed
qed

lemma run_fails:
  assumes "\<And>i. 100000000 \<le> clock i"
  shows "fl_registry (foldl (step clock s pd) st es) = fl_registry st \<and>
         successes (foldl (step clock s pd) st es) = successes st"
  by (induction es arbitrary: st) (simp_all add: step_fails[OF assms])

text \<open>
  Claim C2 says that of \<open>N\<close> concurrent attempts to redeem a single-use active number
  exactly one succeeds and the others fail with a conflict, redemption being one
  conditional write. \<open>useControlNumber\<close> reads the record, marks the document it read as
  used and saves it; the payment reference it has assigned is the string
  \<^verbatim>\<open>CN_<code>_<time>\<close>, which the schema's path, an \<^verbatim>\<open>ObjectId\<close>, does not take, so the
  save is rejected. Whatever the registry, the code, the payment data and the schedule of
  the requests, no attempt succeeds and the registry stays as it was: a code with no
  active record fails as not found, a number that cannot be used fails as such, and a
  number that can be used fails with the validation error of its reference. The handler
  of the controller calls \<^verbatim>\<open>ControlNumber.findOneWithTimeout\<close>, which the model does not
  have, and answers 500 to every request.
\<close>

theorem no_redemption_succeeds:
  assumes "\<And>i. 100000000 \<le> clock i"
  shows "successes (run clock s pd reg es) = 0 \<and>
         fl_registry (run clock s pd reg es) = reg \<and>
         isl (fst (useControlNumber reg (clock i) s (pd i))) \<and>
         snd (useControlNumber reg (clock i) s (pd i)) = reg \<and>
         (useControlNumber_find reg s = None \<longrightarrow>
            fst (useControlNumber reg (clock i) s (pd i)) =
              Inl (Message ''Control number not found or not active'')) \<and>
         (useControlNumber_find reg s = Some c \<and> \<not> canBeUsed (clock i) c \<longrightarrow>
            fst (useControlNumber reg (clock i) s (pd i)) =
              Inl (Message ''Control number cannot be used'')) \<and>
         (useControlNumber_find reg s = Some c \<and> canBeUsed (clock i) c \<longrightarrow>
            fst (useControlNumber reg (clock i) s (pd i)) =
              Inl (CastToObjectIdFailed (''CN_'' @ s @ ''_'' @ showInt (clock i)))) \<and>
         controller_useControlNumber controlNumberModel lookup reg (clock i) s ref info =
           (Inl (HttpError 500 (Message ''ControlNumber.findOneWithTimeout is not a function'')), reg)"
proof -
  have r: "fl_registry (run clock s pd reg es) = reg \<and> successes (run clock s pd reg es) = 0"
    using run_fails[of clock s pd "\<lparr>fl_registry = reg, fl_found = [], fl_results = []\<rparr>" es, OF assms]
    by (simp add: run_def successes_def)
  have u: "isl (fst (useControlNumber reg (clock i) s (pd i))) \<and>
           snd (useControlNumber reg (clock i) s (pd i)) = reg"
    unfolding useControlNumber_def by (rule rest_fails) (rule assms)
  have c: "useControlNumber_find reg s = Some c \<and> canBeUsed (clock i) c \<longrightarrow>
            fst (useControlNumber reg (clock i) s (pd i)) =
              Inl (CastToObjectIdFailed (''CN_'' @ s @ ''_'' @ showInt (clock i)))"
    using rest_cast_fails[of "clock i" c reg s "pd i", OF assms]
    by (simp add: useControlNumber_def del: append.simps)
  have n: "useControlNumber_find reg s = None \<longrightarrow>
            fst (useControlNumber reg (clock i) s (pd i)) =
              Inl (Message ''Control number not found or not active'')"
    by (simp add: useControlNumber_def useControlNumber_rest_def)
  have x: "useControlNumber_find reg s = Some c \<and> \<not> canBeUsed (clock i) c \<longrightarrow>
            fst (useControlNumber reg (clock i) s (pd i)) =
              Inl (Message ''Control number cannot be used'')"
    by (simp add: useControlNumber_def useControlNumber_rest_def)
  have h: "controller_useControlNumber controlNumberModel lookup reg (clock i) s ref info =
           (Inl (HttpError 500 (Message ''ControlNumber.findOneWithTimeout is not a function'')), reg)"
    by (simp add: controller_useControlNumber_def controlNumberModel_def)
  from r u n x c h show ?thesis by simp
qed

theorem no_redemption_succeeds_witness:
  "maxUses singleUse = 1 \<and> \<not> isReusable singleUse \<and> canBeUsed today singleUse \<and>
   successes (run (\<lambda>i. today) ''ZENO1'' payer [singleUse] [Find 0, Find 1, Finish 0, Finish 1]) = 0 \<and>
   fl_registry (run (\<lambda>i. today) ''ZENO1'' payer [singleUse] [Find 0, Find 1, Finish 0, Finish 1])
     = [singleUse] \<and>
   useControlNumber [singleUse] today ''ZENO1'' (payer 0) =
     (Inl (CastToObjectIdFailed ''CN_ZENO1_1700000000000''), [singleUse]) \<and>
   controller_useControlNumber controlNumberModel findActive [singleUse] today ''ZENO1''
       ''655f1a2b3c4d5e6f7a8b9c0d'' noInfo =
     (Inl (HttpError 500 (Message ''ControlNumber.findOneWithTimeout is not a function'')), [singleUse])"
proof -
  have clock: "\<And>i::nat. 100000000 \<le> (\<lambda>i. today) i" by (simp add: today_def)
  have su: "maxUses singleUse = 1" "\<not> isReusable singleUse" "canBeUsed today singleUse"
    by (simp_all add: singleUse_def noInfo_def canBeUsed_def isValid_def isExpired_def today_def
        nextYear_def)
  have fi: "useControlNumber_find [singleUse] ''ZENO1'' = Some singleUse"
    by (simp add: singleUse_def noInfo_def useControlNumber_find_def findActive_def
        toUpperCase_def upperChar_def)
  have sh: "''CN_'' @ ''ZENO1'' @ ''_'' @ showInt today = ''CN_ZENO1_1700000000000''"
    by (simp add: today_def showInt_def showNat.simps digitChar_def)
  note t = no_redemption_succeeds [of "\<lambda>i. today" "''ZENO1''" payer "[singleUse]"
      "[Find 0, Find 1, Finish 0, Finish 1]" 0 singleUse findActive
      "''655f1a2b3c4d5e6f7a8b9c0d''" noInfo, OF clock]
  from t fi su(3) have "fst (useControlNumber [singleUse] today ''ZENO1'' (payer 0)) =
      Inl (CastToObjectIdFailed (''CN_'' @ ''ZENO1'' @ ''_'' @ showInt today))"
    by blast
  then have f: "fst (useControlNumber [singleUse] today ''ZENO1'' (payer 0)) =
      Inl (CastToObjectIdFailed ''CN_ZENO1_1700000000000'')"
    unfolding sh .
  from t have s: "snd (useControlNumber [singleUse] today ''ZENO1'' (payer 0)) = [singleUse]"
    by blast
  from f s have u: "useControlNumber [singleUse] today ''ZENO1'' (payer 0) =
     (Inl (CastToObjectIdFailed ''CN_ZENO1_1700000000000''), [singleUse])"
    by (simp only: prod_eq_iff fst_conv snd_conv simp_thms)
  from t have r: "successes (run (\<lambda>i. today) ''ZENO1'' payer [singleUse] [Find 0, Find 1, Finish 0, Finish 1]) = 0"
    "fl_registry (run (\<lambda>i. today) ''ZENO1'' payer [singleUse] [Find 0, Find 1, Finish 0, Finish 1])
     = [singleUse]"
    "controller_useControlNumber controlNumberModel findActive [singleUse] today ''ZENO1''
       ''655f1a2b3c4d5e6f7a8b9c0d'' noInfo =
     (Inl (HttpError 500 (Message ''ControlNumber.findOneWithTimeout is not a function'')), [singleUse])"
    by blast+
  from su r u show ?thesis by blast
qed


section \<open>Generating a control number\<close>

text \<open>
  The model has neither \<^verbatim>\<open>generateControlNumber\<close> nor \<^verbatim>\<open>findOneWithTimeout\<close>: the loop
  throws at its first statement, before a code is drawn.
\<close>

lemma generateLoop_as_it_is:
  "generateLoop controlNumberModel candidate taken a =
     (Inl (HttpError 500 (Message ''ControlNumber.generateControlNumber is not a function'')), a)"
  by (subst generateLoop.simps) (simp add: controlNumberModel_def)

text \<open>
  With both functions in the model the loop draws until a draw is free: the first free draw
  within the budget is returned, with the number of draws made.
\<close>

lemma generateLoop_first_free:
  assumes "''generateControlNumber'' \<in> set model" and "''findOneWithTimeout'' \<in> set model"
  shows "Suc (a + k) < maxAttempts \<Longrightarrow> (\<And>j. j < k \<Longrightarrow> taken (candidate (a + j))) \<Longrightarrow>
         \<not> taken (candidate (a + k)) \<Longrightarrow>
         generateLoop model candidate taken a = (Inr (candidate (a + k)), Suc (a + k))"
proof (induction k arbitrary: a)
  case 0
  with assms show ?case by (simp add: generateLoop.simps[of model candidate taken a])
next
  case (Suc k)
  from Suc.prems(2)[of 0] have t: "taken (candidate a)" by simp
  from Suc.prems(1) have b: "\<not> maxAttempts \<le> Suc a" by simp
  have "generateLoop model candidate taken (Suc a) = (Inr (candidate (Suc a + k)), Suc (Suc a + k))"
  proof (rule Suc.IH)
    show "Suc (Suc a + k) < maxAttempts" using Suc.prems(1) by simp
    show "taken (candidate (Suc a + j))" if "j < k" for j using Suc.prems(2)[of "Suc j"] that by simp
    show "\<not> taken (candidate (Suc a + k))" using Suc.prems(3) by simp
  qed
  with assms t b show ?case by (simp add: generateLoop.simps[of model candidate taken a])
qed

text \<open>
  When the first nine draws all collide the loop gives up at the tenth draw, which it does
  not look up.
\<close>

lemma generateLoop_exhausted:
  "''generateControlNumber'' \<in> set model \<Longrightarrow> ''findOneWithTimeout'' \<in> set model \<Longrightarrow>
   a < maxAttempts \<Longrightarrow> (\<And>j. a \<le> j \<Longrightarrow> Suc j < maxAttempts \<Longrightarrow> taken (candidate j)) \<Longrightarrow>
   generateLoop model candidate taken a =
     (Inl (HttpError 500 (Message ''Unable to generate unique control number'')), maxAttempts)"
proof (induction model candidate taken a rule: generateLoop.induct)
  case (1 model candidate taken attempts)
  show ?case
  proof (cases "Suc attempts \<ge> maxAttempts")
    case True
    with "1.prems"(3) have "Suc attempts = maxAttempts" by simp
    with True "1.prems"(1,2) show ?thesis
      by (simp add: generateLoop.simps[of model candidate taken attempts])
  next
    case False
    then have t: "taken (candidate attempts)" using "1.prems"(4)[of attempts] by simp
    have "generateLoop model candidate taken (Suc attempts) =
            (Inl (HttpError 500 (Message ''Unable to generate unique control number'')), maxAttempts)"
      using False t "1.prems" by (intro "1.IH") simp_all
    with False t "1.prems"(1,2) show ?thesis
      by (simp add: generateLoop.simps[of model candidate taken attempts])
  qed
qed

text \<open>
  Claim C5 says that code generation retries on a collision within a bounded budget and
  fails with a typed error only when every attempt collides. The handler means to: with a
  generator and a lookup in the model, its loop returns the first free draw among the
  first nine and answers 500, \<open>Unable to generate unique control number\<close>, after ten
  draws when the first nine collide. But the functions it calls are not functions of the
  model: for every request with a positive amount, whatever would be drawn and whatever
  is stored, the first statement of the loop throws, no code is drawn, and the answer is
  500 with the message of the \<^verbatim>\<open>TypeError\<close>.
\<close>

theorem generation_fails_before_first_draw:
  "(0 < a \<longrightarrow>
      controller_generateControlNumber controlNumberModel candidate taken (Some a) =
        (Inl (HttpError 500 (Message ''ControlNumber.generateControlNumber is not a function'')), 0)) \<and>
   (0 < a \<and> ''generateControlNumber'' \<in> set model \<and> ''findOneWithTimeout'' \<in> set model \<longrightarrow>
      (Suc k < maxAttempts \<and> (\<forall>j<k. taken (candidate j)) \<and> \<not> taken (candidate k) \<longrightarrow>
         controller_generateControlNumber model candidate taken (Some a) =
           (Inr (candidate k), Suc k)) \<and>
      ((\<forall>j. Suc j < maxAttempts \<longrightarrow> taken (candidate j)) \<longrightarrow>
         controller_generateControlNumber model candidate taken (Some a) =
           (Inl (HttpError 500 (Message ''Unable to generate unique control number'')), maxAttempts)))"
proof (intro conjI impI)
  assume "0 < a"
  then show "controller_generateControlNumber controlNumberModel candidate taken (Some a) =
        (Inl (HttpError 500 (Message ''ControlNumber.generateControlNumber is not a function'')), 0)"
    by (simp add: controller_generateControlNumber_def generateLoop_as_it_is)
next
  assume m: "0 < a \<and> ''generateControlNumber'' \<in> set model \<and> ''findOneWithTimeout'' \<in> set model"
  assume f: "Suc k < maxAttempts \<and> (\<forall>j<k. taken (candidate j)) \<and> \<not> taken (candidate k)"
  have "generateLoop model candidate taken 0 = (Inr (candidate (0 + k)), Suc (0 + k))"
    using m f by (intro generateLoop_first_free) simp_all
  with m show "controller_generateControlNumber model candidate taken (Some a) =
           (Inr (candidate k), Suc k)"
    by (simp add: controller_generateControlNumber_def)
next
  assume m: "0 < a \<and> ''generateControlNumber'' \<in> set model \<and> ''findOneWithTimeout'' \<in> set model"
  assume f: "\<forall>j. Suc j < maxAttempts \<longrightarrow> taken (candidate j)"
  have "generateLoop model candidate taken 0 =
         (Inl (HttpError 500 (Message ''Unable to generate unique control number'')), maxAttempts)"
    using m f by (intro generateLoop_exhausted) (simp_all add: maxAttempts_def)
  with m show "controller_generateControlNumber model candidate taken (Some a) =
           (Inl (HttpError 500 (Message ''Unable to generate unique control number'')), maxAttempts)"
    by (simp add: controller_generateControlNumber_def)
qed

theorem generation_fails_before_first_draw_witness:
  "controller_generateControlNumber controlNumberModel
       (\<lambda>k. if k < 3 then ''ZENO00000001AAAA'' else ''ZENO00000002BBBB'')
       (\<lambda>c. c = ''ZENO00000001AAAA'') (Some 5000)
     = (Inl (HttpError 500 (Message ''ControlNumber.generateControlNumber is not a function'')), 0) \<and>
   controller_generateControlNumber
       (''generateControlNumber'' # ''findOneWithTimeout'' # controlNumberModel)
       (\<lambda>k. if k < 3 then ''ZENO00000001AAAA'' else ''ZENO00000002BBBB'')
       (\<lambda>c. c = ''ZENO00000001AAAA'') (Some 5000)
     = (Inr ''ZENO00000002BBBB'', 4) \<and>
   controller_generateControlNumber
       (''generateControlNumber'' # ''findOneWithTimeout'' # controlNumberModel)
       (\<lambda>k. ''ZENO00000001AAAA'') (\<lambda>c. c = ''ZENO00000001AAAA'') (Some 5000)
     = (Inl (HttpError 500 (Message ''Unable to generate unique control number'')), 10)"
proof -
  let ?f = "\<lambda>k::nat. if k < 3 then ''ZENO00000001AAAA'' else ''ZENO00000002BBBB''"
  let ?g = "\<lambda>k::nat. ''ZENO00000001AAAA''"
  let ?taken = "\<lambda>c. c = ''ZENO00000001AAAA''"
  let ?m = "''generateControlNumber'' # ''findOneWithTimeout'' # controlNumberModel"
  have pos: "(0::real) < 5000" by simp
  have m: "''generateControlNumber'' \<in> set ?m" "''findOneWithTimeout'' \<in> set ?m"
    by (simp_all only: list.set insert_iff simp_thms)
  have k: "Suc 3 < maxAttempts" "\<forall>j<3. ?taken (?f j)" "\<not> ?taken (?f 3)"
    by (simp_all add: maxAttempts_def)
  have all: "\<forall>j. Suc j < maxAttempts \<longrightarrow> ?taken (?g j)"
    by (simp only: simp_thms)
  have ten: "maxAttempts = 10" by (rule maxAttempts_def)
  from generation_fails_before_first_draw [of 5000 ?f ?taken ?m 3] pos
  have a: "controller_generateControlNumber controlNumberModel ?f ?taken (Some 5000) =
        (Inl (HttpError 500 (Message ''ControlNumber.generateControlNumber is not a function'')), 0)"
    by blast
  from generation_fails_before_first_draw [of 5000 ?f ?taken ?m 3] pos m k
  have b: "controller_generateControlNumber ?m ?f ?taken (Some 5000) = (Inr (?f 3), Suc 3)"
    by blast
  from generation_fails_before_first_draw [of 5000 ?g ?taken ?m 3] pos m all
  have c: "controller_generateControlNumber ?m ?g ?taken (Some 5000) =
           (Inl (HttpError 500 (Message ''Unable to generate unique control number'')), maxAttempts)"
    by blast
  have f3: "?f 3 = ''ZENO00000002BBBB''" "Suc 3 = 4" by simp_all
  from a b c show ?thesis unfolding ten f3 by blast
qed


section \<open>Validating a control number\<close>

lemmas issued_defs =
  issued_def singleUse_def usedNumber_def lapsedValidity_def lapsedExpiry_def usedUp_def noInfo_def
  today_def lastYear_def nextYear_def

lemmas validate_defs =
  validateControlNumber_def findActive_def toUpperCase_def upperChar_def canBeUsed_def
  isValid_def isExpired_def validate_spec_def

lemma findActive_None:
  "findActive reg k = None \<longleftrightarrow> (\<forall>c\<in>set reg. cn_code c = k \<longrightarrow> cn_status c \<noteq> ''active'')"
  by (auto simp: findActive_def find_None_iff)

lemma findActive_Some:
  "findActive reg k = Some c \<Longrightarrow> cn_code c = k \<and> cn_status c = ''active'' \<and> c \<in> set reg"
  unfolding findActive_def by (auto dest: find_Some_mem)

text \<open>
  The validation endpoint of the controller calls \<^verbatim>\<open>ControlNumber.validateControlNumber\<close>,
  which the model does not have: whatever the code and the amount, it answers 500.
\<close>

lemma controller_validateControlNumber_as_it_is:
  "controller_validateControlNumber controlNumberModel lookup s expected =
     ValidateFailed (HttpError 500 (Message ''ControlNumber.validateControlNumber is not a function''))"
  by (simp add: controller_validateControlNumber_def controlNumberModel_def)

text \<open>
  Claim C6 says that validation is read-only and tells five outcomes apart: not found,
  inactive, expired (past \<^verbatim>\<open>expiresAt\<close> or past \<^verbatim>\<open>validUntil\<close>), exhausted, and amount
  mismatch. The code's outcomes are coarser and cut differently. An unknown code and a used
  one get the same answer, where the claim has not found and inactive; a number past its
  \<^verbatim>\<open>validUntil\<close> and one past its \<^verbatim>\<open>expiresAt\<close> get different answers, where the claim
  has expired for both; and a number with no uses left gets the answer of the one past its
  \<^verbatim>\<open>validUntil\<close>, where the claim has exhausted and expired. No amount is compared:
  where the claim has an amount mismatch, for the number of 5000 and an expected amount of
  4000, \<open>validateControlNumber\<close>, which takes no amount, answers valid, and the endpoint
  of the controller, which takes one, answers 500.
\<close>

theorem validate_classes_counterexample:
  "fst (validateControlNumber issued today ''ZENOX'') = fst (validateControlNumber issued today ''ZENOU'') \<and>
   validate_spec issued today ''ZENOX'' None = SpecInvalid ''not_found'' \<and>
   validate_spec issued today ''ZENOU'' None = SpecInvalid ''inactive'' \<and>
   fst (validateControlNumber issued today ''ZENOA'') = Invalid ''Control number cannot be used'' \<and>
   fst (validateControlNumber issued today ''ZENOE'') = Invalid ''Control number has expired'' \<and>
   validate_spec issued today ''ZENOA'' None = SpecInvalid ''expired'' \<and>
   validate_spec issued today ''ZENOE'' None = SpecInvalid ''expired'' \<and>
   fst (validateControlNumber issued today ''ZENOB'') = fst (validateControlNumber issued today ''ZENOA'') \<and>
   validate_spec issued today ''ZENOB'' None = SpecInvalid ''exhausted'' \<and>
   validate_spec issued today ''ZENO1'' (Some 4000) = SpecInvalid ''amount_mismatch'' \<and>
   fst (validateControlNumber issued today ''ZENO1'') = Valid singleUse \<and>
   controller_validateControlNumber controlNumberModel (findActive issued) ''ZENO1'' (Some 4000) =
     ValidateFailed (HttpError 500 (Message ''ControlNumber.validateControlNumber is not a function''))"
  by (simp add: issued_defs validate_defs controller_validateControlNumber_as_it_is)

text \<open>
  Claim C6, amended: \<open>validateControlNumber\<close> leaves the registry as it was, and answers:
  an empty code, invalid with \<open>Control number is required\<close>; no record with the uppercased
  code in status active (whether the code is unknown or its record inactive), invalid with
  \<open>Control number not found or expired\<close>; an active record past its \<^verbatim>\<open>expiresAt\<close>, invalid
  with \<open>Control number has expired\<close>; otherwise past its \<^verbatim>\<open>validUntil\<close> or with
  \<^verbatim>\<open>currentUses\<close> at least \<^verbatim>\<open>maxUses\<close>, invalid with \<open>Control number cannot be used\<close>;
  otherwise valid with the record. It takes no expected amount and compares none.
\<close>

theorem validateControlNumber_classifies:
  "snd (validateControlNumber reg now s) = reg \<and>
   (s = [] \<longrightarrow> fst (validateControlNumber reg now s) = Invalid ''Control number is required'') \<and>
   (s \<noteq> [] \<and> (\<forall>c\<in>set reg. cn_code c = toUpperCase s \<longrightarrow> cn_status c \<noteq> ''active'') \<longrightarrow>
      fst (validateControlNumber reg now s) = Invalid ''Control number not found or expired'') \<and>
   (s \<noteq> [] \<and> findActive reg (toUpperCase s) = Some c \<longrightarrow>
      cn_code c = toUpperCase s \<and> cn_status c = ''active'' \<and> c \<in> set reg \<and>
      fst (validateControlNumber reg now s) =
        (if now > cn_expiresAt c then Invalid ''Control number has expired''
         else if now > validUntil c \<or> currentUses c \<ge> maxUses c
         then Invalid ''Control number cannot be used''
         else Valid c))"
proof (intro conjI impI)
  show "snd (validateControlNumber reg now s) = reg"
    by (simp add: validateControlNumber_def split: option.splits)
next
  assume "s = []"
  then show "fst (validateControlNumber reg now s) = Invalid ''Control number is required''"
    by (simp add: validateControlNumber_def)
next
  assume "s \<noteq> [] \<and> (\<forall>c\<in>set reg. cn_code c = toUpperCase s \<longrightarrow> cn_status c \<noteq> ''active'')"
  then have "s \<noteq> []" "findActive reg (toUpperCase s) = None" by (simp_all add: findActive_None)
  then show "fst (validateControlNumber reg now s) = Invalid ''Control number not found or expired''"
    by (simp add: validateControlNumber_def)
next
  assume a: "s \<noteq> [] \<and> findActive reg (toUpperCase s) = Some c"
  then have fs: "cn_code c = toUpperCase s \<and> cn_status c = ''active'' \<and> c \<in> set reg"
    by (auto dest: findActive_Some)
  then show "cn_code c = toUpperCase s" "cn_status c = ''active''" "c \<in> set reg" by simp_all
  from a fs show "fst (validateControlNumber reg now s) =
        (if now > cn_expiresAt c then Invalid ''Control number has expired''
         else if now > validUntil c \<or> currentUses c \<ge> maxUses c
         then Invalid ''Control number cannot be used''
         else Valid c)"
    by (auto simp: validateControlNumber_def canBeUsed_def isValid_def isExpired_def)
qed

theorem validateControlNumber_classifies_witness:
  "validateControlNumber issued today ''zeno1'' = (Valid singleUse, issued) \<and>
   fst (validateControlNumber issued today ''ZENOX'') = Invalid ''Control number not found or expired'' \<and>
   fst (validateControlNumber issued today ''ZENOU'') = Invalid ''Control number not found or expired'' \<and>
   fst (validateControlNumber issued today ''ZENOE'') = Invalid ''Control number has expired'' \<and>
   fst (validateControlNumber issued today ''ZENOA'') = Invalid ''Control number cannot be used'' \<and>
   fst (validateControlNumber issued today ''ZENOB'') = Invalid ''Control number cannot be used'' \<and>
   fst (validateControlNumber issued today []) = Invalid ''Control number is required''"
  using validateControlNumber_classifies [of issued today "''zeno1''" singleUse]
        validateControlNumber_classifies [of issued today "''ZENOX''" singleUse]
        validateControlNumber_classifies [of issued today "''ZENOU''" singleUse]
        validateControlNumber_classifies [of issued today "''ZENOE''" lapsedExpiry]
        validateControlNumber_classifies [of issued today "''ZENOA''" lapsedValidity]
        validateControlNumber_classifies [of issued today "''ZENOB''" usedUp]
        validateControlNumber_classifies [of issued today "[]" singleUse]
  by (simp add: issued_defs validate_defs)


section \<open>Upper and lower case in control numbers\<close>

lemma upperChar_idem: "upperChar (upperChar c) = upperChar c"
  by (simp add: upperChar_def)

lemma toUpperCase_idem: "toUpperCase (toUpperCase s) = toUpperCase s"
  by (simp add: toUpperCase_def upperChar_idem)

lemma toUpperCase_Nil: "toUpperCase s = [] \<longleftrightarrow> s = []"
  by (simp add: toUpperCase_def)

lemma toUpperCase_length: "length (toUpperCase s) = length s"
  by (simp add: toUpperCase_def)

lemma markAsUsed_reference:
  "markAsUsed now ref info c = Inr c' \<Longrightarrow>
   markAsUsed now ref' info c = Inr (c'\<lparr>paymentReference := Some ref'\<rparr>)"
  by (auto simp: markAsUsed_def Let_def split: if_splits)

lemma markAsUsed_keeps:
  "markAsUsed now ref info c = Inr c' \<Longrightarrow>
   cn_id c' = cn_id c \<and> cn_code c' = cn_code c \<and> amount c' = amount c \<and> currency c' = currency c"
  by (auto simp: markAsUsed_def Let_def split: if_splits)

text \<open>Whether a payment reference casts depends on its length only, not on the code's case.\<close>

lemma reference_casts_iff:
  "castsToObjectId (''CN_'' @ s @ ''_'' @ t) \<longleftrightarrow> length s + length t = 8"
  using reference_is_not_hex[of s t]
  by (auto simp: castsToObjectId_def simp del: list_all_append)

lemma rest_forgets_reference:
  assumes "length s' = length s"
  shows "forgetReference (useControlNumber_rest reg now s pd found) =
         forgetReference (useControlNumber_rest reg now s' pd found)"
proof (cases found)
  case None
  then show ?thesis by (simp add: useControlNumber_rest_def)
next
  case (Some c)
  show ?thesis
  proof (cases "canBeUsed now c")
    case False
    with Some show ?thesis by (simp add: useControlNumber_rest_def)
  next
    case True
    let ?info = "\<lparr>info_name = customerName pd, info_phone = phoneNumber pd,
                  info_network = pd_network pd\<rparr>"
    let ?r = "''CN_'' @ s @ ''_'' @ showInt now"
    let ?r' = "''CN_'' @ s' @ ''_'' @ showInt now"
    from True have "cn_status c = ''active''" by (simp add: canBeUsed_def isValid_def)
    then obtain c1 where m: "markAsUsed now ?r ?info c = Inr c1"
        and r: "paymentReference c1 = Some ?r"
      using markAsUsed_active by blast
    from m have m': "markAsUsed now ?r' ?info c = Inr (c1\<lparr>paymentReference := Some ?r'\<rparr>)"
      by (rule markAsUsed_reference)
    have casts: "castsToObjectId ?r' = castsToObjectId ?r"
      unfolding reference_casts_iff using assms by simp
    show ?thesis
    proof (cases "castsToObjectId ?r")
      case False
      with casts r have
        "saveControlNumber reg c1 = Inl (CastToObjectIdFailed ?r)"
        "saveControlNumber reg (c1\<lparr>paymentReference := Some ?r'\<rparr>) = Inl (CastToObjectIdFailed ?r')"
        by (simp_all add: saveControlNumber_def del: append.simps)
      with Some True m m' show ?thesis
        by (simp add: useControlNumber_rest_def forgetReference_def forgetQuoted_def Let_def
            del: append.simps)
    next
      case c: True
      with casts r have
        s1: "saveControlNumber reg c1 = Inr (map (\<lambda>x. if cn_id x = cn_id c1 then c1 else x) reg)"
        and s2: "saveControlNumber reg (c1\<lparr>paymentReference := Some ?r'\<rparr>) =
           Inr (map (\<lambda>x. if cn_id x = cn_id c1 then c1\<lparr>paymentReference := Some ?r'\<rparr> else x) reg)"
        by (simp_all add: saveControlNumber_def del: append.simps)
      have "map (\<lambda>c. c\<lparr>paymentReference := None\<rparr>)
              (map (\<lambda>x. if cn_id x = cn_id c1 then c1 else x) reg) =
            map (\<lambda>c. c\<lparr>paymentReference := None\<rparr>)
              (map (\<lambda>x. if cn_id x = cn_id c1 then c1\<lparr>paymentReference := Some ?r'\<rparr> else x) reg)"
        by simp
      with Some True m m' s1 s2 show ?thesis
        by (simp add: useControlNumber_rest_def forgetReference_def Let_def del: append.simps)
    qed
  qed
qed

text \<open>A failure that is not the rejection of the save does not depend on the code as typed.\<close>

lemma rest_message_same:
  assumes "fst (useControlNumber_rest reg now s pd found) = Inl (Message m)"
  shows "useControlNumber_rest reg now s' pd found = useControlNumber_rest reg now s pd found"
proof (cases found)
  case None
  then show ?thesis by (simp add: useControlNumber_rest_def)
next
  case (Some c)
  show ?thesis
  proof (cases "canBeUsed now c")
    case False
    with Some show ?thesis by (simp add: useControlNumber_rest_def)
  next
    case True
    let ?info = "\<lparr>info_name = customerName pd, info_phone = phoneNumber pd,
                  info_network = pd_network pd\<rparr>"
    let ?r = "''CN_'' @ s @ ''_'' @ showInt now"
    from True have "cn_status c = ''active''" by (simp add: canBeUsed_def isValid_def)
    then obtain c1 where m: "markAsUsed now ?r ?info c = Inr c1"
      using markAsUsed_active by blast
    with Some True assms have False
      by (auto simp: useControlNumber_rest_def saveControlNumber_def Let_def
          split: sum.splits option.splits if_splits simp del: append.simps)
    then show ?thesis ..
  qed
qed

lemmas cn_eval_defs =
  useControlNumber_def useControlNumber_find_def useControlNumber_rest_def findActive_def
  toUpperCase_def upperChar_def canBeUsed_def isValid_def isExpired_def markAsUsed_def Let_def
  truthy_def saveControlNumber_def castsToObjectId_def isHex_def showInt_def showNat.simps
  digitChar_def

text \<open>
  Claim C10 says that \<open>validateControlNumber\<close> and \<open>useControlNumber\<close> behave identically
  on a code and on its uppercase form. The lookup does, but \<open>useControlNumber\<close> builds the
  payment reference from the code as it was typed, and the reference shows in the outcome:
  redeeming \<open>zeno1\<close> fails with the validation error of the reference
  \<open>CN_zeno1_1700000000000\<close>, redeeming \<open>ZENO1\<close> with that of \<open>CN_ZENO1_1700000000000\<close>.
\<close>

theorem use_reference_counterexample:
  "useControlNumber [singleUse] today ''zeno1'' (payer 0) =
     (Inl (CastToObjectIdFailed ''CN_zeno1_1700000000000''), [singleUse]) \<and>
   useControlNumber [singleUse] today (toUpperCase ''zeno1'') (payer 0) =
     (Inl (CastToObjectIdFailed ''CN_ZENO1_1700000000000''), [singleUse]) \<and>
   useControlNumber [singleUse] today ''zeno1'' (payer 0) \<noteq>
     useControlNumber [singleUse] today (toUpperCase ''zeno1'') (payer 0)"
  by (simp add: singleUse_def noInfo_def payer_def today_def nextYear_def cn_eval_defs)

text \<open>
  Claim C10, amended: the lookup is case-insensitive. \<open>validateControlNumber\<close> gives the same
  result on a code and on its uppercase form; \<open>useControlNumber\<close> finds the same record for
  both, and its outcomes for the two, the registry included, differ at most in the payment
  reference, which holds the code as typed: they are the same once the reference is
  blanked, and a failure that does not quote the reference is the same for both.
\<close>

theorem lookup_ignores_case:
  "validateControlNumber reg now (toUpperCase s) = validateControlNumber reg now s \<and>
   useControlNumber_find reg (toUpperCase s) = useControlNumber_find reg s \<and>
   forgetReference (useControlNumber reg now (toUpperCase s) pd) =
     forgetReference (useControlNumber reg now s pd) \<and>
   (fst (useControlNumber reg now s pd) = Inl (Message m) \<longrightarrow>
      useControlNumber reg now (toUpperCase s) pd = useControlNumber reg now s pd)"
proof (intro conjI impI)
  show "validateControlNumber reg now (toUpperCase s) = validateControlNumber reg now s"
    by (simp add: validateControlNumber_def toUpperCase_idem toUpperCase_Nil)
  show f: "useControlNumber_find reg (toUpperCase s) = useControlNumber_find reg s"
    by (simp add: useControlNumber_find_def toUpperCase_idem)
  show "forgetReference (useControlNumber reg now (toUpperCase s) pd) =
     forgetReference (useControlNumber reg now s pd)"
    unfolding useControlNumber_def f by (rule rest_forgets_reference) (simp add: toUpperCase_length)
  assume "fst (useControlNumber reg now s pd) = Inl (Message m)"
  then show "useControlNumber reg now (toUpperCase s) pd = useControlNumber reg now s pd"
    unfolding useControlNumber_def f by (rule rest_message_same)
qed

theorem lookup_ignores_case_witness:
  "validateControlNumber issued today (toUpperCase ''zeno1'') = validateControlNumber issued today ''zeno1'' \<and>
   validateControlNumber issued today ''zeno1'' = (Valid singleUse, issued) \<and>
   fst (useControlNumber issued today ''zenou'' (payer 0)) =
     Inl (Message ''Control number not found or not active'') \<and>
   useControlNumber issued today (toUpperCase ''zenou'') (payer 0) =
     useControlNumber issued today ''zenou'' (payer 0) \<and>
   forgetReference (useControlNumber issued today (toUpperCase ''zeno1'') (payer 0)) =
     forgetReference (useControlNumber issued today ''zeno1'' (payer 0))"
proof -
  have v: "validateControlNumber issued today ''zeno1'' = (Valid singleUse, issued)"
    by (simp add: issued_defs validate_defs)
  have u: "fst (useControlNumber issued today ''zenou'' (payer 0)) =
     Inl (Message ''Control number not found or not active'')"
    by (simp add: issued_defs useControlNumber_def useControlNumber_find_def
        useControlNumber_rest_def findActive_def toUpperCase_def upperChar_def)
  from lookup_ignores_case [of issued today "''zeno1''" "payer 0"]
  have a: "validateControlNumber issued today (toUpperCase ''zeno1'') =
           validateControlNumber issued today ''zeno1''"
          "forgetReference (useControlNumber issued today (toUpperCase ''zeno1'') (payer 0)) =
           forgetReference (useControlNumber issued today ''zeno1'' (payer 0))"
    by blast+
  from lookup_ignores_case [of issued today "''zenou''" "payer 0"
      "''Control number not found or not active''"] u
  have b: "useControlNumber issued today (toUpperCase ''zenou'') (payer 0) =
           useControlNumber issued today ''zenou'' (payer 0)"
    by blast
  from v u a b show ?thesis by blast
qed

end
